theory Spec2Isabelle
  imports Main
begin

section \<open>The outside world: requests, responses and the interaction history\<close>

text \<open>
  The service talks to two remote systems (the scanner and the ticket tracker) through
  \<^verbatim>\<open>fetch\<close>. A call either rejects (\<open>NetError\<close>, with the error's message) or yields
  a response with an HTTP status; the body of a response is \<open>None\<close> when
  \<^verbatim>\<open>response.json()\<close> rejects, and otherwise the JSON document the endpoint
  returns, reduced to the fields the code reads.

  Timers and the rate limiter only delay a call and are left out.
\<close>

datatype 'b response = NetError string | Http nat "'b option"

text \<open>\<^verbatim>\<open>response.ok\<close>: the status is in the range 200-299.\<close>

definition ok :: "nat \<Rightarrow> bool" where
  "ok status \<longleftrightarrow> 200 \<le> status \<and> status < 300"

text \<open>JavaScript truthiness of a value that is either absent or a string.\<close>

definition truthy :: "string option \<Rightarrow> bool" where
  "truthy v = (case v of None \<Rightarrow> False | Some s \<Rightarrow> s \<noteq> [])"

text \<open>
  A plain object \<^verbatim>\<open>{}\<close> used as a dictionary. The model keeps its own properties as a
  map; reading \<^verbatim>\<open>obj[key]\<close> yields the own value, or, when there is none, what
  \<^verbatim>\<open>Object.prototype\<close> provides under that name (an object or a function, so neither
  \<^verbatim>\<open>true\<close> nor \<^verbatim>\<open>false\<close> and truthy), or \<^verbatim>\<open>undefined\<close>. Assigning a boolean or a
  string to \<^verbatim>\<open>obj['__proto__']\<close> goes to the setter of \<^verbatim>\<open>Object.prototype\<close>, which
  ignores such a value: the object is unchanged. Every other assignment creates or
  updates an own property.
\<close>

definition object_prototype_names :: "string list" where
  "object_prototype_names =
     [''constructor'', ''__defineGetter__'', ''__defineSetter__'', ''hasOwnProperty'',
      ''__lookupGetter__'', ''__lookupSetter__'', ''isPrototypeOf'', ''propertyIsEnumerable'',
      ''toString'', ''valueOf'', ''__proto__'', ''toLocaleString'']"

datatype 'v property = Absent | Own 'v | Inherited

definition get_property :: "(string \<rightharpoonup> 'v) \<Rightarrow> string \<Rightarrow> 'v property" where
  "get_property obj k =
     (case obj k of
        Some v \<Rightarrow> Own v
      | None \<Rightarrow> if k \<in> set object_prototype_names then Inherited else Absent)"

definition set_property :: "(string \<rightharpoonup> 'v) \<Rightarrow> string \<Rightarrow> 'v \<Rightarrow> (string \<rightharpoonup> 'v)" where
  "set_property obj k v = (if k = ''__proto__'' then obj else obj(k \<mapsto> v))"

text \<open>Truthiness of \<^verbatim>\<open>obj[key]\<close> for an object whose own values are strings.\<close>

definition property_truthy :: "string property \<Rightarrow> bool" where
  "property_truthy p = (case p of Absent \<Rightarrow> False | Own s \<Rightarrow> s \<noteq> [] | Inherited \<Rightarrow> True)"

text \<open>
  \<^verbatim>\<open>/api/hotspots/show\<close>: \<open>hotspot_errors\<close> is the \<^verbatim>\<open>errors\<close> array (empty when the
  field is absent), \<open>hotspot_key\<close> the \<^verbatim>\<open>key\<close> field.
\<close>

datatype hotspot_body = HotspotBody (hotspot_errors: "string list") (hotspot_key: "string option")

text \<open>A workflow transition offered by the tracker: \<^verbatim>\<open>{id, name}\<close>.\<close>

record transition =
  transition_id :: string
  transition_name :: string

text \<open>
  The body of a transition request: the resolution id, the transition id and, when
  \<open>with_comment\<close>, the \<^verbatim>\<open>update.comment\<close> block.
\<close>

datatype transition_request =
  TransitionRequest (with_comment: bool) (resolution_id: string) (requested_transition: string)

text \<open>
  A ticket as the tracker's search returns it. \<open>customfield_11972\<close> is the reference
  field: \<open>None\<close> when the field or its \<^verbatim>\<open>content\<close> is missing, otherwise the list
  of paragraphs, each the list of the \<^verbatim>\<open>text\<close> values of its nodes (a paragraph
  without \<^verbatim>\<open>content\<close> is the empty list, a node without \<^verbatim>\<open>text\<close> is \<open>None\<close>).
  \<open>status_name\<close> is \<^verbatim>\<open>fields.status.name\<close>, \<open>None\<close> when \<^verbatim>\<open>fields.status\<close> is
  missing.
\<close>

record ticket =
  ticket_key :: string
  customfield_11972 :: "string option list list option"
  status_name :: "string option"

text \<open>
  One page of the paginated ticket search: \<open>page_issues\<close> is \<open>None\<close> when
  \<^verbatim>\<open>issues\<close> is missing or not an array.
\<close>

datatype page = Page (page_issues: "ticket list option") (page_total: nat)

text \<open>The \<^verbatim>\<open>fields\<close> of the create-issue payload.\<close>

record payload =
  fields_project :: string
  fields_summary :: string
  fields_description :: "string list"
  fields_issuetype :: string
  fields_customfield_11972 :: string
  fields_priority :: string
  fields_components :: "string option"
  fields_customfield_10200 :: string
  fields_customfield_11569 :: string
  fields_assignee :: "string option"

text \<open>
  Every call of \<^verbatim>\<open>fetch\<close> is recorded, with its answer, in the interaction history;
  the remote systems may answer depending on everything that happened before.
  \<open>logger_raises\<close> says whether the \<^verbatim>\<open>logger.debug\<close> call that opens a batch of
  \<^verbatim>\<open>checkMultipleIssuesResolved\<close> raises: it is the first statement of the loop body
  that no inner handler covers. All other logging returns normally.
\<close>

datatype event =
    SonarIssueSearch "string list" "string list response"
  | SonarHotspotShow string "hotspot_body response"
  | JiraUserSearch string "string list response"
  | JiraSearchExisting "string list" "ticket list response"
  | JiraCreateIssue payload "string response"
  | JiraSearchOpen nat "page response"
  | JiraGetTransitions string "transition list response"
  | JiraPostTransition string transition_request "unit response"
  | JiraPostComment string string "unit response"

record env =
  issues_search :: "event list \<Rightarrow> string list \<Rightarrow> string list response"
  hotspots_show :: "event list \<Rightarrow> string \<Rightarrow> hotspot_body response"
  jira_user_search :: "event list \<Rightarrow> string \<Rightarrow> string list response"
  jira_search_existing :: "event list \<Rightarrow> string list \<Rightarrow> ticket list response"
  jira_create_issue :: "event list \<Rightarrow> payload \<Rightarrow> string response"
  jira_search_open :: "event list \<Rightarrow> nat \<Rightarrow> page response"
  jira_get_transitions :: "event list \<Rightarrow> string \<Rightarrow> transition list response"
  jira_post_transition :: "event list \<Rightarrow> string \<Rightarrow> transition_request \<Rightarrow> unit response"
  jira_post_comment :: "event list \<Rightarrow> string \<Rightarrow> string \<Rightarrow> unit response"
  logger_raises :: "event list \<Rightarrow> bool"

section \<open>fetchWithRetry\<close>

text \<open>
  \<^verbatim>\<open>
  const fetchWithRetry = async (url, options, maxRetries = 3) => {
    for (let i = 0; i < maxRetries; i++) {
      try {
        const response = await fetch(url, options);
        if (response.ok) return response;
        if (i === maxRetries - 1) throw new Error(`HTTP ${response.status}`);
      } catch (error) {
        if (i === maxRetries - 1) throw error;
        ...wait...
      }
    }
  };
  \<close>
  \<open>attempts call mk left h\<close> runs the loop with \<open>left\<close> turns to go: \<open>call h\<close> is the
  answer of the remote system to this request after the history \<open>h\<close>, and \<open>mk\<close> makes
  the event recorded for it. The result is the response returned (\<open>Returned\<close>), the
  exception raised (\<open>Threw\<close>), or \<open>NoResponse\<close> when the loop ends without either
  (\<^verbatim>\<open>undefined\<close>; only for \<^verbatim>\<open>maxRetries = 0\<close>). Every call site uses the default
  of three attempts.
\<close>

datatype exn = HttpError nat | FetchError string | TypeError | ServiceError string

datatype 'b fetched = Returned nat "'b option" | Threw exn | NoResponse

fun attempts ::
  "(event list \<Rightarrow> 'b response) \<Rightarrow> ('b response \<Rightarrow> event) \<Rightarrow> nat \<Rightarrow> event list
     \<Rightarrow> 'b fetched \<times> event list" where
  "attempts call mk 0 h = (NoResponse, h)"
| "attempts call mk (Suc left) h =
     (let r = call h; h' = h @ [mk r] in
      case r of
        Http status body \<Rightarrow>
          if ok status then (Returned status body, h')
          else if left = 0 then (Threw (HttpError status), h')
          else attempts call mk left h'
      | NetError msg \<Rightarrow>
          if left = 0 then (Threw (FetchError msg), h')
          else attempts call mk left h')"

definition fetchWithRetry ::
  "(event list \<Rightarrow> 'b response) \<Rightarrow> ('b response \<Rightarrow> event) \<Rightarrow> event list
     \<Rightarrow> 'b fetched \<times> event list" where
  "fetchWithRetry call mk h = attempts call mk 3 h"

section \<open>checkMultipleIssuesResolved\<close>

text \<open>
  \<^verbatim>\<open>
  const resolvedStatus = {};
  try {
    sonarKeys.forEach(key => { resolvedStatus[key] = true; });
    for (let i = 0; i < sonarKeys.length; i += maxBatchSize) {
      const batch = sonarKeys.slice(i, i + maxBatchSize);
      logger.debug(...);
      try {
        const issueResponse = await fetchWithRetry(issueApiUrl, ...);
        if (issueResponse.ok) {
          const issueData = await issueResponse.json();
          const foundIssueKeys = (issueData.issues || []).map(issue => issue.key);
          foundIssueKeys.forEach(key => { resolvedStatus[key] = false; });
        } else { ...log... }
      } catch (error) { ...log... }
      const keysToCheckAsHotspots = batch.filter(key => resolvedStatus[key] === true);
      for (const hotspotKey of keysToCheckAsHotspots) {
        try {
          const hotspotResponse = await fetchWithRetry(hotspotShowUrl, ...);
          if (hotspotResponse.ok) {
            const hotspotData = await hotspotResponse.json();
            if (hotspotData.errors && hotspotData.errors.length > 0) { ...stays true... }
            else if (hotspotData.key) { resolvedStatus[hotspotKey] = false; }
          } else { ...stays true... }
        } catch (error) { ...stays true... }
      }
    }
    return resolvedStatus;
  } catch (error) {
    const fallbackStatus = {};
    sonarKeys.forEach(key => { fallbackStatus[key] = false; });
    return fallbackStatus;
  }
  \<close>
  \<open>slices n xs\<close> is the list of the \<^verbatim>\<open>xs.slice(i, i + n)\<close> for \<^verbatim>\<open>i = 0, n, 2n, ...\<close>
  below the length of \<open>xs\<close>; the code uses it with the batch sizes 50 and 5.
  \<open>check_issues\<close> and \<open>check_hotspot\<close> are the two inner \<^verbatim>\<open>try\<close> blocks with their
  handlers, \<open>check_batch\<close> one turn of the outer loop, \<open>process_batches\<close> the outer
  loop (\<open>None\<close> when an exception leaves it), \<open>checkMultipleIssuesResolved_try\<close> the
  body of the outer \<^verbatim>\<open>try\<close>.
\<close>

type_synonym status_map = "string \<rightharpoonup> bool"

definition mark_all :: "bool \<Rightarrow> string list \<Rightarrow> status_map \<Rightarrow> status_map" where
  "mark_all v ks m = fold (\<lambda>k m. set_property m k v) ks m"

function slices :: "nat \<Rightarrow> 'a list \<Rightarrow> 'a list list" where
  "slices n xs = (if xs = [] \<or> n = 0 then [] else take n xs # slices n (drop n xs))"
  by pat_completeness auto
termination
  by (relation "measure (\<lambda>(n, xs). length xs)") auto

definition check_issues :: "env \<Rightarrow> string list \<Rightarrow> status_map \<times> event list \<Rightarrow> status_map \<times> event list" where
  "check_issues env batch s =
     (case s of (m, h) \<Rightarrow>
      (case fetchWithRetry (\<lambda>h. issues_search env h batch) (SonarIssueSearch batch) h of
         (Returned status body, h') \<Rightarrow>
           if ok status then
             (case body of
                None \<Rightarrow> (m, h')
              | Some foundIssueKeys \<Rightarrow> (mark_all False foundIssueKeys m, h'))
           else (m, h')
       | (Threw e, h') \<Rightarrow> (m, h')
       | (NoResponse, h') \<Rightarrow> (m, h')))"

definition check_hotspot :: "env \<Rightarrow> string \<Rightarrow> status_map \<times> event list \<Rightarrow> status_map \<times> event list" where
  "check_hotspot env hotspotKey s =
     (case s of (m, h) \<Rightarrow>
      (case fetchWithRetry (\<lambda>h. hotspots_show env h hotspotKey) (SonarHotspotShow hotspotKey) h of
         (Returned status body, h') \<Rightarrow>
           if ok status then
             (case body of
                None \<Rightarrow> (m, h')
              | Some hotspotData \<Rightarrow>
                  if hotspot_errors hotspotData \<noteq> [] then (m, h')
                  else if truthy (hotspot_key hotspotData)
                  then (set_property m hotspotKey False, h')
                  else (m, h'))
           else (m, h')
       | (Threw e, h') \<Rightarrow> (m, h')
       | (NoResponse, h') \<Rightarrow> (m, h')))"

definition check_batch :: "env \<Rightarrow> string list \<Rightarrow> status_map \<times> event list \<Rightarrow> status_map \<times> event list" where
  "check_batch env batch s =
     (let s1 = check_issues env batch s;
          keysToCheckAsHotspots = filter (\<lambda>k. get_property (fst s1) k = Own True) batch
      in fold (check_hotspot env) keysToCheckAsHotspots s1)"

fun process_batches ::
  "env \<Rightarrow> string list list \<Rightarrow> status_map \<times> event list \<Rightarrow> status_map option \<times> event list" where
  "process_batches env [] s = (Some (fst s), snd s)"
| "process_batches env (batch # rest) s =
     (if logger_raises env (snd s) then (None, snd s)
      else process_batches env rest (check_batch env batch s))"

definition checkMultipleIssuesResolved_try ::
  "env \<Rightarrow> string list \<Rightarrow> event list \<Rightarrow> status_map option \<times> event list" where
  "checkMultipleIssuesResolved_try env sonarKeys h =
     process_batches env (slices 50 sonarKeys) (mark_all True sonarKeys Map.empty, h)"

definition checkMultipleIssuesResolved ::
  "env \<Rightarrow> string list \<Rightarrow> event list \<Rightarrow> status_map \<times> event list" where
  "checkMultipleIssuesResolved env sonarKeys h =
     (case checkMultipleIssuesResolved_try env sonarKeys h of
        (Some resolvedStatus, h') \<Rightarrow> (resolvedStatus, h')
      | (None, h') \<Rightarrow> (mark_all False sonarKeys Map.empty, h'))"

section \<open>closeJiraTicket\<close>

definition preferredTransitions :: "string list" where
  "preferredTransitions = [''wont do'', ''Done'', ''Closed'', ''Resolved'', ''Verified'']"

text \<open>
  The loop over the preferred names: the first name for which \<^verbatim>\<open>transitions.find\<close>
  returns a transition ends the loop.
\<close>

fun select_transition :: "string list \<Rightarrow> transition list \<Rightarrow> transition option" where
  "select_transition [] transitions = None"
| "select_transition (preferredName # names) transitions =
     (case find (\<lambda>t. transition_name t = preferredName) transitions of
        Some t \<Rightarrow> Some t
      | None \<Rightarrow> select_transition names transitions)"

definition transitionResolutionMap :: "string \<rightharpoonup> string" where
  "transitionResolutionMap =
     [''Verified'' \<mapsto> ''10100'', ''wont do'' \<mapsto> ''10001'', ''Done'' \<mapsto> ''10000'',
      ''Closed'' \<mapsto> ''10601'', ''Resolved'' \<mapsto> ''10608'']"

definition resolutionId_of :: "string \<Rightarrow> string" where
  "resolutionId_of transitionName =
     (if truthy (transitionResolutionMap transitionName)
      then the (transitionResolutionMap transitionName) else ''10100'')"

text \<open>
  Every exception raised inside the function ends in its \<^verbatim>\<open>catch\<close>, which returns
  \<^verbatim>\<open>false\<close>. The branch for a combined request that comes back with
  \<^verbatim>\<open>ok\<close> false is kept as the source has it.
\<close>

definition closeJiraTicket :: "env \<Rightarrow> string \<Rightarrow> string \<Rightarrow> event list \<Rightarrow> bool \<times> event list" where
  "closeJiraTicket env jiraTicketKey sonarKey h =
     (case fetchWithRetry (\<lambda>h. jira_get_transitions env h jiraTicketKey)
                          (JiraGetTransitions jiraTicketKey) h of
        (Threw e, h1) \<Rightarrow> (False, h1)
      | (NoResponse, h1) \<Rightarrow> (False, h1)
      | (Returned status body, h1) \<Rightarrow>
          if \<not> ok status then (False, h1)
          else
            (case body of
               None \<Rightarrow> (False, h1)
             | Some transitions \<Rightarrow>
                 (case select_transition preferredTransitions transitions of
                    None \<Rightarrow> (False, h1)
                  | Some t \<Rightarrow>
                      if transition_id t = [] then (False, h1)
                      else
                        let resolutionId = resolutionId_of (transition_name t);
                            commentBody = TransitionRequest True resolutionId (transition_id t);
                            transitionOnlyBody = TransitionRequest False resolutionId (transition_id t)
                        in
                        (case fetchWithRetry (\<lambda>h. jira_post_transition env h jiraTicketKey commentBody)
                                             (JiraPostTransition jiraTicketKey commentBody) h1 of
                           (Threw e, h2) \<Rightarrow> (False, h2)
                         | (NoResponse, h2) \<Rightarrow> (False, h2)
                         | (Returned status2 body2, h2) \<Rightarrow>
                             if ok status2 then (True, h2)
                             else
                               (case fetchWithRetry
                                       (\<lambda>h. jira_post_transition env h jiraTicketKey transitionOnlyBody)
                                       (JiraPostTransition jiraTicketKey transitionOnlyBody) h2 of
                                  (Threw e, h3) \<Rightarrow> (False, h3)
                                | (NoResponse, h3) \<Rightarrow> (False, h3)
                                | (Returned status3 body3, h3) \<Rightarrow>
                                    if ok status3 then
                                      (True, snd (fetchWithRetry
                                                    (\<lambda>h. jira_post_comment env h jiraTicketKey sonarKey)
                                                    (JiraPostComment jiraTicketKey sonarKey) h3))
                                    else (False, h3))))))"

section \<open>Project configuration and lookupJiraUsers\<close>

text \<open>
  \<^verbatim>\<open>projectConfig.json\<close> is data of the deployment; the list of its \<^verbatim>\<open>projects\<close>
  is a parameter of the model. \<open>None\<close> stands for a field that is missing or
  \<^verbatim>\<open>null\<close>.
\<close>

record project =
  project_key :: string
  project_name :: string
  project_assignee :: "string option"
  project_component :: "string option"

record projectInfo =
  info_name :: string
  info_assignee :: "string option"
  info_component :: "string option"

definition getProjectInfo :: "project list \<Rightarrow> string \<Rightarrow> projectInfo" where
  "getProjectInfo projects projectKey =
     (case find (\<lambda>p. project_key p = projectKey) projects of
        Some p \<Rightarrow> \<lparr>info_name = project_name p, info_assignee = project_assignee p,
                   info_component = project_component p\<rparr>
      | None \<Rightarrow> \<lparr>info_name = projectKey, info_assignee = None, info_component = Some ''Others''\<rparr>)"

text \<open>\<^verbatim>\<open>String.prototype.trim\<close> on the white space of the 8-bit character set.\<close>

definition is_space :: "char \<Rightarrow> bool" where
  "is_space c \<longleftrightarrow> (of_char c :: nat) \<in> {9, 10, 11, 12, 13, 32, 160}"

definition trim :: "string \<Rightarrow> string" where
  "trim s = rev (dropWhile is_space (rev (dropWhile is_space s)))"

text \<open>The distinct assignee emails in order of first occurrence, as a \<^verbatim>\<open>Set\<close> keeps them.\<close>

definition uniqueEmails :: "project list \<Rightarrow> string list" where
  "uniqueEmails projects =
     rev (remdups (rev (map (\<lambda>p. the (project_assignee p))
       (filter (\<lambda>p. truthy (project_assignee p) \<and> trim (the (project_assignee p)) \<noteq> []) projects))))"

type_synonym account_cache = "string \<rightharpoonup> string"

text \<open>
  One turn of the lookup loop. The body of the user search is the list of the
  \<^verbatim>\<open>accountId\<close>s of the users found. The keys of \<^verbatim>\<open>userAccountCache\<close> are the
  assignee emails of the configuration file; they are email addresses, none of them a
  property name of \<^verbatim>\<open>Object.prototype\<close>, and the cache is read and written as a map.
\<close>

definition lookup_user :: "env \<Rightarrow> string \<Rightarrow> account_cache \<times> event list \<Rightarrow> account_cache \<times> event list" where
  "lookup_user env email s =
     (case s of (userAccountCache, h) \<Rightarrow>
        if truthy (userAccountCache email) then (userAccountCache, h)
        else
          (case fetchWithRetry (\<lambda>h. jira_user_search env h email) (JiraUserSearch email) h of
             (Returned status body, h') \<Rightarrow>
               if ok status then
                 (case body of
                    None \<Rightarrow> (userAccountCache, h')
                  | Some userData \<Rightarrow>
                      (case userData of
                         [] \<Rightarrow> (userAccountCache, h')
                       | user # others \<Rightarrow> (userAccountCache(email \<mapsto> user), h')))
               else (userAccountCache, h')
           | (Threw e, h') \<Rightarrow> (userAccountCache, h')
           | (NoResponse, h') \<Rightarrow> (userAccountCache, h')))"

definition lookupJiraUsers ::
  "env \<Rightarrow> project list \<Rightarrow> account_cache \<times> event list \<Rightarrow> account_cache \<times> event list" where
  "lookupJiraUsers env projects s = fold (lookup_user env) (uniqueEmails projects) s"

section \<open>createJiraTickets\<close>

text \<open>A finding of the scanner: an issue or a security hotspot.\<close>

record finding =
  item_key :: string
  item_project :: string
  item_component :: string
  item_message :: string
  item_type :: string
  item_severity :: "string option"
  item_vulnerabilityProbability :: "string option"

record config =
  projects :: "project list"
  sonarBaseUrl :: string

definition jiraDefaultProject :: string where
  "jiraDefaultProject = ''LV''"

type_synonym ticket_index = "string \<rightharpoonup> string"

text \<open>
  The body of the loop over the tickets of one search result (the existence index):
  the first text of the first paragraph of the reference field is the finding's key;
  a node without \<^verbatim>\<open>text\<close> yields the property name \<^verbatim>\<open>undefined\<close>.
\<close>

definition index_ticket :: "ticket \<Rightarrow> ticket_index \<times> string list \<Rightarrow> ticket_index \<times> string list" where
  "index_ticket t s =
     (case s of (existingTicketsMap, existingTickets) \<Rightarrow>
        (case customfield_11972 t of
           None \<Rightarrow> s
         | Some content \<Rightarrow>
             (case content of
                [] \<Rightarrow> s
              | paragraph # paragraphs \<Rightarrow>
                  (case paragraph of
                     [] \<Rightarrow> s
                   | node # nodes \<Rightarrow>
                       let sonarKey = (case node of None \<Rightarrow> ''undefined'' | Some text \<Rightarrow> text)
                       in (set_property existingTicketsMap sonarKey (ticket_key t),
                           if ticket_key t \<in> set existingTickets then existingTickets
                           else existingTickets @ [ticket_key t])))))"

text \<open>One batch of the existence check; \<open>Inl\<close> is an exception leaving the loop body.\<close>

definition index_batch ::
  "env \<Rightarrow> string list \<Rightarrow> ticket_index \<times> string list \<Rightarrow> event list
     \<Rightarrow> (exn + ticket_index \<times> string list) \<times> event list" where
  "index_batch env batch s h =
     (case fetchWithRetry (\<lambda>h. jira_search_existing env h batch) (JiraSearchExisting batch) h of
        (Threw e, h') \<Rightarrow> (Inl e, h')
      | (NoResponse, h') \<Rightarrow> (Inl TypeError, h')
      | (Returned status body, h') \<Rightarrow>
          if \<not> ok status then (Inl (ServiceError ''HTTP error''), h')
          else
            (case body of
               None \<Rightarrow> (Inl (FetchError ''invalid json''), h')
             | Some issues \<Rightarrow> (Inr (fold index_ticket issues s), h')))"

text \<open>
  The loop over the batches sits inside one \<^verbatim>\<open>try\<close>; its \<^verbatim>\<open>catch\<close> logs the
  error and the function goes on with the index built so far.
\<close>

fun index_batches ::
  "env \<Rightarrow> string list list \<Rightarrow> ticket_index \<times> string list \<Rightarrow> event list
     \<Rightarrow> (ticket_index \<times> string list) \<times> event list" where
  "index_batches env [] s h = (s, h)"
| "index_batches env (batch # rest) s h =
     (case index_batch env batch s h of
        (Inl e, h') \<Rightarrow> (s, h')
      | (Inr s', h') \<Rightarrow> index_batches env rest s' h')"

definition build_index ::
  "env \<Rightarrow> string list \<Rightarrow> event list \<Rightarrow> (ticket_index \<times> string list) \<times> event list" where
  "build_index env allSonarKeys h =
     (if allSonarKeys \<noteq> [] then index_batches env (slices 50 allSonarKeys) (Map.empty, []) h
      else ((Map.empty, []), h))"

definition fileName_of :: "string \<Rightarrow> string" where
  "fileName_of component = rev (takeWhile (\<lambda>c. c \<noteq> CHR '':'') (rev component))"

definition summary_of :: "finding \<Rightarrow> string" where
  "summary_of item =
     (let summary = item_message item @ '' in '' @ fileName_of (item_component item)
      in if length summary > 254 then take 251 summary @ ''...'' else summary)"

definition sonarPermalink :: "config \<Rightarrow> finding \<Rightarrow> string \<Rightarrow> string" where
  "sonarPermalink cfg item itemType =
     (if itemType = ''issue''
      then sonarBaseUrl cfg @ ''/project/issues?resolved=false&types='' @ item_type item
             @ ''&id='' @ item_project item @ ''&issues='' @ item_key item
      else sonarBaseUrl cfg @ ''/security_hotspots?id='' @ item_project item
             @ ''&hotspots='' @ item_key item)"

definition priorityName :: "finding \<Rightarrow> string \<Rightarrow> string" where
  "priorityName item itemType =
     (if itemType = ''issue'' then
        (if item_severity item = Some ''BLOCKER'' \<or> item_severity item = Some ''CRITICAL''
         then ''Highest'' else ''High'')
      else
        (if item_vulnerabilityProbability item = Some ''HIGH''
            \<or> item_vulnerabilityProbability item = Some ''MEDIUM''
         then ''Highest'' else ''High''))"

text \<open>
  The payload of the create-issue request. The description is kept as the list of its
  texts (heading, the three list items, the link's target).
\<close>

definition jiraPayload :: "config \<Rightarrow> account_cache \<Rightarrow> finding \<Rightarrow> string \<Rightarrow> payload" where
  "jiraPayload cfg userAccountCache item itemType =
     (let fileName = fileName_of (item_component item);
          projectInfo = getProjectInfo (projects cfg) (item_project item)
      in \<lparr>fields_project = jiraDefaultProject,
          fields_summary = summary_of item,
          fields_description =
            [(if itemType = ''issue'' then ''Issue'' else ''Hotspot'') @ '' Details'',
             ''Project: '' @ info_name projectInfo @ '' ('' @ item_project item @ '')'',
             ''Message: '' @ item_message item,
             ''File: '' @ fileName,
             sonarPermalink cfg item itemType],
          fields_issuetype = ''Bug'',
          fields_customfield_11972 = item_key item,
          fields_priority = priorityName item itemType,
          fields_components =
            (if truthy (info_component projectInfo) \<and> trim (the (info_component projectInfo)) \<noteq> []
             then info_component projectInfo else None),
          fields_customfield_10200 = ''Others'',
          fields_customfield_11569 = ''Automation'',
          fields_assignee =
            (if truthy (info_assignee projectInfo)
                \<and> truthy (userAccountCache (the (info_assignee projectInfo)))
             then userAccountCache (the (info_assignee projectInfo)) else None)\<rparr>)"

text \<open>
  \<^verbatim>\<open>createJiraTicket\<close> with the \<^verbatim>\<open>try\<close>/\<^verbatim>\<open>catch\<close> of its call site: an exception
  inside (a failed request, a response that is not ok, an empty summary) is logged and
  leaves \<^verbatim>\<open>createdTickets\<close> as it was.
\<close>

definition createJiraTicket ::
  "config \<Rightarrow> env \<Rightarrow> ticket_index \<Rightarrow> account_cache \<Rightarrow> string \<Rightarrow> finding
     \<Rightarrow> string list \<times> event list \<Rightarrow> string list \<times> event list" where
  "createJiraTicket cfg env existingTicketsMap userAccountCache itemType item s =
     (case s of (createdTickets, h) \<Rightarrow>
        if property_truthy (get_property existingTicketsMap (item_key item))
        then (createdTickets, h)
        else
          let p = jiraPayload cfg userAccountCache item itemType in
          if trim (fields_summary p) = [] \<or> fields_project p = [] \<or> fields_issuetype p = []
          then (createdTickets, h)
          else
            (case fetchWithRetry (\<lambda>h. jira_create_issue env h p) (JiraCreateIssue p) h of
               (Threw e, h') \<Rightarrow> (createdTickets, h')
             | (NoResponse, h') \<Rightarrow> (createdTickets, h')
             | (Returned status body, h') \<Rightarrow>
                 if \<not> ok status then (createdTickets, h')
                 else
                   (case body of
                      None \<Rightarrow> (createdTickets, h')
                    | Some newKey \<Rightarrow> (createdTickets @ [newKey], h'))))"

record creation_result =
  created :: "string list"
  existing :: "string list"

text \<open>
  The function also returns the account cache (a module-level object it fills) and the
  interaction history. The validation of the environment variables that precedes the
  body is taken to have passed. With findings and a configuration of these types every
  statement of the outer \<^verbatim>\<open>try\<close> that can raise sits inside one of the inner handlers
  (one per email, one around the existence check, one per finding), so the model has no
  path into the outer \<^verbatim>\<open>catch\<close>.
\<close>

definition createJiraTickets ::
  "config \<Rightarrow> env \<Rightarrow> finding list \<Rightarrow> finding list \<Rightarrow> account_cache \<times> event list
     \<Rightarrow> creation_result \<times> account_cache \<times> event list" where
  "createJiraTickets cfg env issues hotspots s =
     (let (userAccountCache, h1) = lookupJiraUsers env (projects cfg) s;
          allSonarKeys = map item_key issues @ map item_key hotspots;
          ((existingTicketsMap, existingTickets), h2) = build_index env allSonarKeys h1;
          s3 = fold (createJiraTicket cfg env existingTicketsMap userAccountCache ''issue'')
                 issues ([], h2);
          (createdTickets, h4) =
               fold (createJiraTicket cfg env existingTicketsMap userAccountCache ''hotspot'')
                 hotspots s3
      in (\<lparr>created = createdTickets, existing = existingTickets\<rparr>, userAccountCache, h4))"

section \<open>closeResolvedJiraTickets\<close>

text \<open>One request of the paginated search and the checks on its answer.\<close>

definition fetch_page :: "env \<Rightarrow> nat \<Rightarrow> event list \<Rightarrow> (exn + ticket list \<times> nat) \<times> event list" where
  "fetch_page env startAt h =
     (case fetchWithRetry (\<lambda>h. jira_search_open env h startAt) (JiraSearchOpen startAt) h of
        (Threw e, h') \<Rightarrow> (Inl e, h')
      | (NoResponse, h') \<Rightarrow> (Inl TypeError, h')
      | (Returned status body, h') \<Rightarrow>
          if \<not> ok status then (Inl (ServiceError ''HTTP error''), h')
          else
            (case body of
               None \<Rightarrow> (Inl (FetchError ''invalid json''), h')
             | Some searchData \<Rightarrow>
                 (case page_issues searchData of
                    None \<Rightarrow> (Inl (ServiceError ''Invalid response format from Jira search API''), h')
                  | Some issues \<Rightarrow> (Inr (issues, page_total searchData), h'))))"

text \<open>
  The pagination loop. It ends when the tickets fetched reach the total the tracker
  reports, or when a page fails; a tracker that keeps answering with an empty page and
  a larger total keeps it running, so the result is an option.
\<close>

partial_function (option) fetch_all_tickets ::
  "env \<Rightarrow> nat \<Rightarrow> ticket list \<Rightarrow> event list \<Rightarrow> ((exn + ticket list) \<times> event list) option" where
  "fetch_all_tickets env startAt allTickets h =
     (case fetch_page env startAt h of
        (Inl e, h') \<Rightarrow> if allTickets \<noteq> [] then Some (Inr allTickets, h') else Some (Inl e, h')
      | (Inr (issues, totalTickets), h') \<Rightarrow>
          if startAt + length issues < totalTickets
          then fetch_all_tickets env (startAt + length issues) (allTickets @ issues) h'
          else Some (Inr (allTickets @ issues), h'))"

text \<open>The finding key of a ticket, as the first pass over the tickets extracts it.\<close>

definition extract_key :: "ticket \<Rightarrow> string option" where
  "extract_key t =
     (case customfield_11972 t of
        None \<Rightarrow> None
      | Some content \<Rightarrow>
          (case content of
             [] \<Rightarrow> None
           | paragraph # paragraphs \<Rightarrow>
               (case paragraph of
                  [] \<Rightarrow> None
                | node # nodes \<Rightarrow>
                    (let sonarKey = map_option trim node
                     in if truthy sonarKey then sonarKey else None))))"

text \<open>The branch a ticket takes in the second pass.\<close>

datatype outcome =
    Closed | CloseFailed | NotResolved | UnknownStatus
  | EmptyKey | NoParagraph | NoCustomField | ProcessingError

definition process_ticket ::
  "env \<Rightarrow> status_map \<Rightarrow> ticket \<Rightarrow> event list \<Rightarrow> outcome \<times> event list" where
  "process_ticket env resolvedStatusMap t h =
     (case customfield_11972 t of
        None \<Rightarrow> (NoCustomField, h)
      | Some content \<Rightarrow>
          (case content of
             [] \<Rightarrow> (NoCustomField, h)
           | paragraph # paragraphs \<Rightarrow>
               (case paragraph of
                  [] \<Rightarrow> (NoParagraph, h)
                | node # nodes \<Rightarrow>
                    (let sonarKey = map_option trim node in
                     case status_name t of
                       None \<Rightarrow> (ProcessingError, h)
                     | Some ticketStatus \<Rightarrow>
                         if \<not> truthy sonarKey then (EmptyKey, h)
                         else
                           (case get_property resolvedStatusMap (the sonarKey) of
                              Own True \<Rightarrow>
                                (case closeJiraTicket env (ticket_key t) (the sonarKey) h of
                                   (True, h') \<Rightarrow> (Closed, h')
                                 | (False, h') \<Rightarrow> (CloseFailed, h'))
                            | Own False \<Rightarrow> (NotResolved, h)
                            | Absent \<Rightarrow> (UnknownStatus, h)
                            | Inherited \<Rightarrow> (UnknownStatus, h))))))"

text \<open>
  The tickets are handled in groups of five whose closures are awaited together; the
  model runs a group in ticket order.
\<close>

definition process_group ::
  "env \<Rightarrow> status_map \<Rightarrow> ticket list \<Rightarrow> outcome list \<times> event list \<Rightarrow> outcome list \<times> event list" where
  "process_group env resolvedStatusMap batch s =
     fold (\<lambda>t (outcomes, h).
             case process_ticket env resolvedStatusMap t h of (out, h') \<Rightarrow> (outcomes @ [out], h'))
          batch s"

definition process_tickets ::
  "env \<Rightarrow> status_map \<Rightarrow> ticket list \<Rightarrow> event list \<Rightarrow> outcome list \<times> event list" where
  "process_tickets env resolvedStatusMap allTickets h =
     fold (process_group env resolvedStatusMap) (slices 5 allTickets) ([], h)"

definition is_error :: "outcome \<Rightarrow> bool" where
  "is_error out \<longleftrightarrow> out \<in> {CloseFailed, UnknownStatus, EmptyKey, NoParagraph, NoCustomField, ProcessingError}"

text \<open>
  The object returned: its properties in order, each with its value. \<open>Inl\<close> is the
  error the function rejects with (its outer \<^verbatim>\<open>catch\<close> logs and rethrows), \<open>None\<close> a
  pagination that never ends.
\<close>

type_synonym report = "(string \<times> nat) list"

definition closeResolvedJiraTickets ::
  "env \<Rightarrow> event list \<Rightarrow> ((exn + report) \<times> event list) option" where
  "closeResolvedJiraTickets env h =
     (case fetch_all_tickets env 0 [] h of
        None \<Rightarrow> None
      | Some (Inl e, h1) \<Rightarrow> Some (Inl e, h1)
      | Some (Inr allTickets, h1) \<Rightarrow>
          (let allSonarKeys = map the (filter (\<lambda>k. k \<noteq> None) (map extract_key allTickets)) in
           if allSonarKeys = [] then
             Some (Inr [(''ticketsChecked'', length allTickets),
                        (''ticketsClosed'', 0),
                        (''ticketsNotResolved'', 0)], h1)
           else
             (case checkMultipleIssuesResolved env allSonarKeys h1 of
                (resolvedStatusMap, h2) \<Rightarrow>
                  (case process_tickets env resolvedStatusMap allTickets h2 of
                     (outcomes, h3) \<Rightarrow>
                       Some (Inr [(''ticketsChecked'', length allTickets),
                                  (''ticketsClosed'', length (filter (\<lambda>out. out = Closed) outcomes)),
                                  (''ticketsNotResolved'', length (filter (\<lambda>out. out = NotResolved) outcomes)),
                                  (''ticketsWithErrors'', length (filter is_error outcomes))], h3)))))"

section \<open>Notions used in the statements\<close>

text \<open>
  What an event of the history reports as present in the scanner: the keys of a
  successful unresolved-issues search, and the key of a hotspot whose show query
  succeeded without errors and carries a key.
\<close>

fun reported :: "event \<Rightarrow> string list" where
  "reported (SonarIssueSearch batch (Http status (Some found))) = (if ok status then found else [])"
| "reported (SonarHotspotShow k (Http status (Some d))) =
     (if ok status \<and> hotspot_errors d = [] \<and> truthy (hotspot_key d) then [k] else [])"
| "reported _ = []"

definition confirmed_present :: "event list \<Rightarrow> string set" where
  "confirmed_present h = set (concat (map reported h))"

definition status_of :: "string list \<Rightarrow> event list \<Rightarrow> status_map" where
  "status_of keys new = (\<lambda>k. if k = ''__proto__'' then None
                              else if k \<in> confirmed_present new then Some False
                              else if k \<in> set keys then Some True else None)"

definition tracked :: "string list \<Rightarrow> event list \<Rightarrow> status_map \<times> event list \<Rightarrow> bool" where
  "tracked keys h0 s \<longleftrightarrow> (\<exists>new. snd s = h0 @ new \<and> fst s = status_of keys new)"

definition is_ok :: "'b response \<Rightarrow> bool" where
  "is_ok r = (case r of Http status body \<Rightarrow> ok status | NetError msg \<Rightarrow> False)"

definition found_issues :: "string list fetched \<Rightarrow> string list" where
  "found_issues r = (case r of Returned status (Some found) \<Rightarrow> if ok status then found else []
                     | _ \<Rightarrow> [])"

definition found_hotspot :: "string \<Rightarrow> hotspot_body fetched \<Rightarrow> string list" where
  "found_hotspot k r = (case r of Returned status (Some d) \<Rightarrow>
                           if ok status \<and> hotspot_errors d = [] \<and> truthy (hotspot_key d) then [k] else []
                        | _ \<Rightarrow> [])"

text \<open>An environment in which every request fails at the network level.\<close>

definition offline :: env where
  "offline = \<lparr>issues_search = (\<lambda>h batch. NetError ''offline''),
              hotspots_show = (\<lambda>h k. NetError ''offline''),
              jira_user_search = (\<lambda>h email. NetError ''offline''),
              jira_search_existing = (\<lambda>h batch. NetError ''offline''),
              jira_create_issue = (\<lambda>h p. NetError ''offline''),
              jira_search_open = (\<lambda>h startAt. NetError ''offline''),
              jira_get_transitions = (\<lambda>h k. NetError ''offline''),
              jira_post_transition = (\<lambda>h k body. NetError ''offline''),
              jira_post_comment = (\<lambda>h k c. NetError ''offline''),
              logger_raises = (\<lambda>h. False)\<rparr>"

text \<open>
  The scanner of the reconciliation example: the issue search finds \<^verbatim>\<open>k1\<close> only, and
  every hotspot query answers with an error list (no such hotspot).
\<close>

definition scanner_k1 :: env where
  "scanner_k1 = offline
     \<lparr>issues_search := (\<lambda>h batch. Http 200 (Some [''k1''])),
      hotspots_show := (\<lambda>h k. Http 200 (Some (HotspotBody [''Hotspot not found''] None)))\<rparr>"



text \<open>
  A scanner that confirms every identifier absent: the issue search finds nothing and
  every hotspot query answers with an error list. A scanner whose issue search reports
  the key \<^verbatim>\<open>__proto__\<close>.
\<close>

definition absent_scanner :: env where
  "absent_scanner = offline
     \<lparr>issues_search := (\<lambda>h batch. Http 200 (Some [])),
      hotspots_show := (\<lambda>h k. Http 200 (Some (HotspotBody [''Hotspot not found''] None)))\<rparr>"

definition proto_scanner :: env where
  "proto_scanner = offline\<lparr>issues_search := (\<lambda>h batch. Http 200 (Some [''__proto__'']))\<rparr>"

text \<open>
  The same absent scanner with a tracker whose paginated search returns one open ticket
  with the reference text \<^verbatim>\<open>__proto__\<close>.
\<close>

definition ticket_proto :: ticket where
  "ticket_proto = \<lparr>ticket_key = ''LV-13'', customfield_11972 = Some [[Some ''__proto__'']],
                    status_name = Some ''Open''\<rparr>"

definition proto_ticket_tracker :: env where
  "proto_ticket_tracker = absent_scanner
     \<lparr>jira_search_open := (\<lambda>h startAt. Http 200 (Some (Page (Some [ticket_proto]) 1)))\<rparr>"


text \<open>A configuration with one project, and two findings of that project.\<close>

definition shop_config :: config where
  "shop_config =
     \<lparr>projects = [\<lparr>project_key = ''shop'', project_name = ''Shop'',
                    project_assignee = Some ''dev@example.com'',
                    project_component = Some ''Backend''\<rparr>],
      sonarBaseUrl = ''https://sonar.example''\<rparr>"

definition critical_issue :: finding where
  "critical_issue =
     \<lparr>item_key = ''k1'', item_project = ''shop'', item_component = ''shop:src/app.js'',
      item_message = ''Null dereference'', item_type = ''BUG'',
      item_severity = Some ''CRITICAL'', item_vulnerabilityProbability = None\<rparr>"

text \<open>
  A tracker without tickets that knows one user and creates \<^verbatim>\<open>LV-1\<close> on request.
\<close>

definition fresh_tracker :: env where
  "fresh_tracker = offline
     \<lparr>jira_user_search := (\<lambda>h email. Http 200 (Some [''acc-1''])),
      jira_search_existing := (\<lambda>h batch. Http 200 (Some [])),
      jira_create_issue := (\<lambda>h p. Http 201 (Some ''LV-1''))\<rparr>"

text \<open>
  A tracker offering a transition outside the preferred list and the five preferred ones
  in reverse order of preference, accepting every transition request, one
  offering only a transition outside the preferred list, and one that rejects a
  transition request carrying a comment (status 400) but would accept the same
  transition without the comment.
\<close>

definition all_offered :: "transition list" where
  "all_offered =
     [\<lparr>transition_id = ''2'', transition_name = ''Other''\<rparr>,
      \<lparr>transition_id = ''9'', transition_name = ''Verified''\<rparr>,
      \<lparr>transition_id = ''8'', transition_name = ''Resolved''\<rparr>,
      \<lparr>transition_id = ''7'', transition_name = ''Closed''\<rparr>,
      \<lparr>transition_id = ''5'', transition_name = ''Done''\<rparr>,
      \<lparr>transition_id = ''3'', transition_name = ''wont do''\<rparr>]"

definition workflow_tracker :: env where
  "workflow_tracker = offline
     \<lparr>jira_get_transitions := (\<lambda>h k. Http 200 (Some all_offered)),
      jira_post_transition := (\<lambda>h k body. Http 204 None)\<rparr>"

definition other_only_tracker :: env where
  "other_only_tracker = offline
     \<lparr>jira_get_transitions :=
        (\<lambda>h k. Http 200 (Some [\<lparr>transition_id = ''2'', transition_name = ''Other''\<rparr>])),
      jira_post_transition := (\<lambda>h k body. Http 204 None)\<rparr>"

definition comment_rejecting_tracker :: env where
  "comment_rejecting_tracker = offline
     \<lparr>jira_get_transitions :=
        (\<lambda>h k. Http 200 (Some [\<lparr>transition_id = ''31'', transition_name = ''Done''\<rparr>])),
      jira_post_transition := (\<lambda>h k body. if with_comment body then Http 400 None else Http 204 None),
      jira_post_comment := (\<lambda>h k c. Http 201 None)\<rparr>"

text \<open>Whether the loop over the batches of the existence check ran without an exception.\<close>

fun all_indexed ::
  "env \<Rightarrow> string list list \<Rightarrow> ticket_index \<times> string list \<Rightarrow> event list \<Rightarrow> bool" where
  "all_indexed env [] s h = True"
| "all_indexed env (batch # rest) s h =
     (case index_batch env batch s h of
        (Inl e, h') \<Rightarrow> False
      | (Inr s', h') \<Rightarrow> all_indexed env rest s' h')"

text \<open>
  Fifty-one finding keys (two batches), and a tracker whose search times out except for
  the batch that holds only the last key, for which it returns the open ticket
  \<^verbatim>\<open>LV-9\<close>.
\<close>

definition fifty_one_keys :: "string list" where
  "fifty_one_keys =
     map (\<lambda>c. [CHR ''k'', c]) ''0123456789abcdefghijklmnopqrstuvwxyzABCDEFGHIJKLMNO''"

definition late_ticket_tracker :: env where
  "late_ticket_tracker = offline
     \<lparr>jira_search_existing :=
        (\<lambda>h batch. if batch = [''kO'']
                    then Http 200 (Some [\<lparr>ticket_key = ''LV-9'',
                                           customfield_11972 = Some [[Some ''kO'']],
                                           status_name = Some ''Open''\<rparr>])
                    else NetError ''timeout'')\<rparr>"

text \<open>
  A tracker whose search times out for the batch that holds only the last key and
  answers every other batch with the open ticket \<^verbatim>\<open>LV-1\<close> of the first key.
\<close>

definition early_ticket_tracker :: env where
  "early_ticket_tracker = offline
     \<lparr>jira_search_existing :=
        (\<lambda>h batch. if batch = [''kO'']
                    then NetError ''timeout''
                    else Http 200 (Some [\<lparr>ticket_key = ''LV-1'',
                                           customfield_11972 = Some [[Some ''k0'']],
                                           status_name = Some ''Open''\<rparr>]))\<rparr>"

text \<open>Trackers whose user search finds two users, and none.\<close>

definition two_users_tracker :: env where
  "two_users_tracker = offline
     \<lparr>jira_user_search := (\<lambda>h email. Http 200 (Some [''acc-1'', ''acc-2'']))\<rparr>"

definition no_user_tracker :: env where
  "no_user_tracker = offline\<lparr>jira_user_search := (\<lambda>h email. Http 200 (Some []))\<rparr>"

text \<open>
  Reading the history of a creation run: the finding keys for which a create request
  was sent, those for which the tracker created a ticket, and the keys of the tickets
  it created.
\<close>

fun is_create :: "event \<Rightarrow> bool" where
  "is_create (JiraCreateIssue p r) = True"
| "is_create _ = False"

fun submitted :: "event \<Rightarrow> string list" where
  "submitted (JiraCreateIssue p r) = [fields_customfield_11972 p]"
| "submitted _ = []"

fun ticketed :: "event \<Rightarrow> string list" where
  "ticketed (JiraCreateIssue p (Http status (Some newKey))) =
     (if ok status then [fields_customfield_11972 p] else [])"
| "ticketed _ = []"

fun new_keys :: "event \<Rightarrow> string list" where
  "new_keys (JiraCreateIssue p (Http status (Some newKey))) = (if ok status then [newKey] else [])"
| "new_keys _ = []"

text \<open>
  The state of the creation loops: the history grew from \<open>h2\<close> by create requests only,
  \<^verbatim>\<open>createdTickets\<close> grew by the keys the tracker returned, and no request was sent
  for a key of the index.
\<close>

definition creating ::
  "ticket_index \<Rightarrow> event list \<Rightarrow> string list \<Rightarrow> string list \<times> event list \<Rightarrow> bool" where
  "creating idx h2 c0 s \<longleftrightarrow>
     (\<exists>new. snd s = h2 @ new \<and> fst s = c0 @ concat (map new_keys new) \<and>
            (\<forall>e\<in>set new. is_create e) \<and>
            (\<forall>k. truthy (idx k) \<longrightarrow> k \<notin> set (concat (map submitted new))))"

text \<open>The tracker after the first run: the search finds the ticket \<^verbatim>\<open>LV-1\<close> of \<^verbatim>\<open>k1\<close>.\<close>

definition ticketed_tracker :: env where
  "ticketed_tracker = fresh_tracker
     \<lparr>jira_search_existing :=
        (\<lambda>h batch. Http 200 (Some [\<lparr>ticket_key = ''LV-1'',
                                     customfield_11972 = Some [[Some ''k1'']],
                                     status_name = Some ''Open''\<rparr>]))\<rparr>"

text \<open>
  A tracker whose paginated search returns one open ticket with an empty reference
  text.
\<close>

definition empty_reference_tracker :: env where
  "empty_reference_tracker = offline
     \<lparr>jira_search_open :=
        (\<lambda>h startAt. Http 200 (Some (Page (Some [\<lparr>ticket_key = ''LV-300'',
                                                   customfield_11972 = Some [[Some []]],
                                                   status_name = Some ''Open''\<rparr>]) 1)))\<rparr>"

section \<open>Properties of fetchWithRetry and the resolution check\<close>

lemma set_property_apply:
  "set_property m k v k' = (if k' = k \<and> k \<noteq> ''__proto__'' then Some v else m k')"
  by (simp add: set_property_def)

lemma mark_all_apply:
  "mark_all v ks m k = (if k \<in> set ks \<and> k \<noteq> ''__proto__'' then Some v else m k)"
  unfolding mark_all_def by (induction ks arbitrary: m) (auto simp: set_property_apply)

lemma confirmed_present_append:
  "confirmed_present (a @ b) = confirmed_present a \<union> confirmed_present b"
  by (simp add: confirmed_present_def)

lemma attempts_reported:
  assumes quiet: "\<And>x. \<not> is_ok x \<Longrightarrow> reported (mk x) = []"
  shows "attempts call mk n h = (r, h') \<Longrightarrow>
         \<exists>new. h' = h @ new \<and>
               confirmed_present new =
                 (case r of Returned status body \<Rightarrow> set (reported (mk (Http status body))) | _ \<Rightarrow> {})"
proof (induction n arbitrary: h)
  case 0
  then show ?case by (simp add: confirmed_present_def)
next
  case (Suc left)
  show ?case
  proof (cases "call h")
    case (NetError msg)
    have q: "reported (mk (NetError msg)) = []" by (rule quiet) (simp add: is_ok_def)
    show ?thesis
    proof (cases "left = 0")
      case True
      with Suc.prems NetError q show ?thesis by (auto simp: confirmed_present_def)
    next
      case False
      with Suc.prems NetError have "attempts call mk left (h @ [mk (NetError msg)]) = (r, h')"
        by simp
      from Suc.IH[OF this] obtain new where
        "h' = (h @ [mk (NetError msg)]) @ new" and
        "confirmed_present new =
           (case r of Returned status body \<Rightarrow> set (reported (mk (Http status body))) | _ \<Rightarrow> {})"
        by blast
      then show ?thesis using q
        by (intro exI[of _ "mk (NetError msg) # new"]) (simp add: confirmed_present_def)
    qed
  next
    case (Http status body)
    show ?thesis
    proof (cases "ok status")
      case True
      with Suc.prems Http show ?thesis by (auto simp: confirmed_present_def)
    next
      case nok: False
      have q: "reported (mk (Http status body)) = []" by (rule quiet) (simp add: is_ok_def nok)
      show ?thesis
      proof (cases "left = 0")
        case True
        with Suc.prems Http nok q show ?thesis by (auto simp: confirmed_present_def)
      next
        case False
        with Suc.prems Http nok have "attempts call mk left (h @ [mk (Http status body)]) = (r, h')"
          by simp
        from Suc.IH[OF this] obtain new where
          "h' = (h @ [mk (Http status body)]) @ new" and
          "confirmed_present new =
             (case r of Returned status body \<Rightarrow> set (reported (mk (Http status body))) | _ \<Rightarrow> {})"
          by blast
        then show ?thesis using q
          by (intro exI[of _ "mk (Http status body) # new"]) (simp add: confirmed_present_def)
      qed
    qed
  qed
qed

lemma quiet_issue: "\<not> is_ok x \<Longrightarrow> reported (SonarIssueSearch batch x) = []"
  by (cases "SonarIssueSearch batch x" rule: reported.cases) (auto simp: is_ok_def)

lemma quiet_hotspot: "\<not> is_ok x \<Longrightarrow> reported (SonarHotspotShow k x) = []"
  by (cases "SonarHotspotShow k x" rule: reported.cases) (auto simp: is_ok_def)

lemma mark_all_Nil: "mark_all v [] m = m"
  by (simp add: mark_all_def)

lemma mark_all_single: "mark_all v [k] m = set_property m k v"
  by (simp add: mark_all_def)

lemma check_issues_eq:
  "check_issues env batch (m, h) =
     (case fetchWithRetry (\<lambda>h. issues_search env h batch) (SonarIssueSearch batch) h of
        (r, h') \<Rightarrow> (mark_all False (found_issues r) m, h'))"
  by (simp add: check_issues_def found_issues_def mark_all_Nil
           split: prod.splits fetched.splits option.splits)

lemma check_hotspot_eq:
  "check_hotspot env k (m, h) =
     (case fetchWithRetry (\<lambda>h. hotspots_show env h k) (SonarHotspotShow k) h of
        (r, h') \<Rightarrow> (mark_all False (found_hotspot k r) m, h'))"
  by (simp add: check_hotspot_def found_hotspot_def mark_all_Nil mark_all_single
           split: prod.splits fetched.splits option.splits)

lemma found_issues_reported:
  "(case r of Returned status body \<Rightarrow> set (reported (SonarIssueSearch batch (Http status body)))
    | _ \<Rightarrow> {}) = set (found_issues r)"
  by (cases r; cases "case r of Returned status body \<Rightarrow> body | _ \<Rightarrow> None")
     (simp_all add: found_issues_def)

lemma found_hotspot_reported:
  "(case r of Returned status body \<Rightarrow> set (reported (SonarHotspotShow k (Http status body)))
    | _ \<Rightarrow> {}) = set (found_hotspot k r)"
  by (cases r; cases "case r of Returned status body \<Rightarrow> body | _ \<Rightarrow> None")
     (simp_all add: found_hotspot_def)

lemma status_of_extend:
  "confirmed_present add = set found \<Longrightarrow>
   mark_all False found (status_of keys new) = status_of keys (new @ add)"
  by (simp add: fun_eq_iff mark_all_apply status_of_def confirmed_present_append)

lemma check_issues_inv:
  assumes "check_issues env batch (status_of keys new, h0 @ new) = (m', h')"
  shows "\<exists>new'. h' = h0 @ new' \<and> m' = status_of keys new'"
proof -
  obtain r h1 where f: "fetchWithRetry (\<lambda>h. issues_search env h batch) (SonarIssueSearch batch) (h0 @ new) = (r, h1)"
    by (cases "fetchWithRetry (\<lambda>h. issues_search env h batch) (SonarIssueSearch batch) (h0 @ new)")
  from attempts_reported[where mk="SonarIssueSearch batch", OF quiet_issue f[unfolded fetchWithRetry_def]]
  obtain add where h1: "h1 = (h0 @ new) @ add" and
    cp: "confirmed_present add = set (found_issues r)"
    unfolding found_issues_reported by blast
  from assms f have "h' = h1" and "m' = mark_all False (found_issues r) (status_of keys new)"
    by (simp_all add: check_issues_eq)
  with h1 status_of_extend[OF cp] show ?thesis by simp
qed

lemma check_hotspot_inv:
  assumes "check_hotspot env k (status_of keys new, h0 @ new) = (m', h')"
  shows "\<exists>new'. h' = h0 @ new' \<and> m' = status_of keys new'"
proof -
  obtain r h1 where f: "fetchWithRetry (\<lambda>h. hotspots_show env h k) (SonarHotspotShow k) (h0 @ new) = (r, h1)"
    by (cases "fetchWithRetry (\<lambda>h. hotspots_show env h k) (SonarHotspotShow k) (h0 @ new)")
  from attempts_reported[where mk="SonarHotspotShow k", OF quiet_hotspot f[unfolded fetchWithRetry_def]]
  obtain add where h1: "h1 = (h0 @ new) @ add" and
    cp: "confirmed_present add = set (found_hotspot k r)"
    unfolding found_hotspot_reported by blast
  from assms f have "h' = h1" and "m' = mark_all False (found_hotspot k r) (status_of keys new)"
    by (simp_all add: check_hotspot_eq)
  with h1 status_of_extend[OF cp] show ?thesis by simp
qed

lemma tracked_check_issues: "tracked keys h0 s \<Longrightarrow> tracked keys h0 (check_issues env batch s)"
  unfolding tracked_def
  by (metis check_issues_inv prod.collapse)

lemma tracked_check_hotspot: "tracked keys h0 s \<Longrightarrow> tracked keys h0 (check_hotspot env k s)"
  unfolding tracked_def
  by (metis check_hotspot_inv prod.collapse)

lemma tracked_fold_hotspot:
  "tracked keys h0 s \<Longrightarrow> tracked keys h0 (fold (check_hotspot env) ks s)"
  by (induction ks arbitrary: s) (simp_all add: tracked_check_hotspot)

lemma tracked_check_batch: "tracked keys h0 s \<Longrightarrow> tracked keys h0 (check_batch env batch s)"
  by (simp add: check_batch_def Let_def tracked_fold_hotspot tracked_check_issues)

lemma tracked_process_batches:
  "tracked keys h0 s \<Longrightarrow> process_batches env bs s = (Some m, h) \<Longrightarrow> tracked keys h0 (m, h)"
proof (induction bs arbitrary: s)
  case Nil
  then show ?case by (cases s) simp
next
  case (Cons batch rest)
  from Cons.prems(2) have run: "process_batches env rest (check_batch env batch s) = (Some m, h)"
    by (simp split: if_splits)
  from Cons.prems(1) have "tracked keys h0 (check_batch env batch s)"
    by (rule tracked_check_batch)
  from Cons.IH[OF this run] show ?case .
qed

lemma tracked_init: "tracked keys h0 (mark_all True keys Map.empty, h0)"
  by (simp add: tracked_def status_of_def confirmed_present_def fun_eq_iff mark_all_apply)

lemma fetchWithRetry_unfold: "fetchWithRetry call mk h = attempts call mk (Suc (Suc (Suc 0))) h"
  by (simp add: fetchWithRetry_def numeral_3_eq_3)

lemma slices_Nil: "slices n [] = []"
  by simp

lemma slices_short: "xs \<noteq> [] \<Longrightarrow> 0 < n \<Longrightarrow> length xs \<le> n \<Longrightarrow> slices n xs = [xs]"
  by (subst slices.simps) simp

lemma mark_all_False_keeps: "m k = Some False \<Longrightarrow> mark_all False ks m k = Some False"
  by (simp add: mark_all_apply)

lemma mark_all_dom: "dom m \<subseteq> dom (mark_all v ks m)"
  by (auto simp: mark_all_apply)

lemma check_issues_keeps:
  "fst s k = Some False \<Longrightarrow> fst (check_issues env batch s) k = Some False"
  by (cases s) (simp add: check_issues_eq mark_all_False_keeps split: prod.splits)

lemma check_hotspot_keeps:
  "fst s k = Some False \<Longrightarrow> fst (check_hotspot env key s) k = Some False"
  by (cases s) (simp add: check_hotspot_eq mark_all_False_keeps split: prod.splits)

lemma check_issues_dom: "dom (fst s) \<subseteq> dom (fst (check_issues env batch s))"
  by (cases s) (simp add: check_issues_eq mark_all_dom split: prod.splits)

lemma check_hotspot_dom: "dom (fst s) \<subseteq> dom (fst (check_hotspot env key s))"
  by (cases s) (simp add: check_hotspot_eq mark_all_dom split: prod.splits)

lemma fold_hotspot_keeps:
  "fst s k = Some False \<Longrightarrow> fst (fold (check_hotspot env) ks s) k = Some False"
  by (induction ks arbitrary: s) (simp_all add: check_hotspot_keeps)

lemma fold_hotspot_dom: "dom (fst s) \<subseteq> dom (fst (fold (check_hotspot env) ks s))"
proof (induction ks arbitrary: s)
  case Nil
  show ?case by simp
next
  case (Cons key ks)
  have "dom (fst s) \<subseteq> dom (fst (check_hotspot env key s))" by (rule check_hotspot_dom)
  also have "\<dots> \<subseteq> dom (fst (fold (check_hotspot env) ks (check_hotspot env key s)))"
    by (rule Cons.IH)
  finally show ?case by simp
qed

lemma check_batch_keeps:
  "fst s k = Some False \<Longrightarrow> fst (check_batch env batch s) k = Some False"
  by (simp add: check_batch_def Let_def fold_hotspot_keeps check_issues_keeps)

lemma check_batch_dom: "dom (fst s) \<subseteq> dom (fst (check_batch env batch s))"
proof -
  have "dom (fst s) \<subseteq> dom (fst (check_issues env batch s))" by (rule check_issues_dom)
  also have "\<dots> \<subseteq> dom (fst (check_batch env batch s))"
    unfolding check_batch_def Let_def by (rule fold_hotspot_dom)
  finally show ?thesis .
qed

text \<open>
  For every identifier other than \<^verbatim>\<open>__proto__\<close> the map returned on the normal path
  is determined by what the scanner reported during the run.
\<close>

lemma checkMultipleIssuesResolved_ordinary_keys:
  assumes "checkMultipleIssuesResolved_try env sonarKeys h0 = (Some resolvedStatus, h)"
  shows "checkMultipleIssuesResolved env sonarKeys h0 = (resolvedStatus, h) \<and>
         (\<forall>k. resolvedStatus k =
               (if k = ''__proto__'' then None
                else if k \<in> confirmed_present (drop (length h0) h) then Some False
                else if k \<in> set sonarKeys then Some True else None))"
proof -
  from assms have "tracked sonarKeys h0 (resolvedStatus, h)"
    unfolding checkMultipleIssuesResolved_try_def
    by (rule tracked_process_batches[OF tracked_init])
  then obtain new where "h = h0 @ new" "resolvedStatus = status_of sonarKeys new"
    by (auto simp: tracked_def)
  then show ?thesis using assms
    by (simp add: checkMultipleIssuesResolved_def status_of_def)
qed



lemma checkMultipleIssuesResolved_total:
  assumes "k \<in> set sonarKeys" and "k \<noteq> ''__proto__''"
  shows "fst (checkMultipleIssuesResolved env sonarKeys h) k = Some True
       \<or> fst (checkMultipleIssuesResolved env sonarKeys h) k = Some False"
proof (cases "checkMultipleIssuesResolved_try env sonarKeys h")
  case (Pair r h')
  show ?thesis
  proof (cases r)
    case None
    with Pair assms show ?thesis
      by (simp add: checkMultipleIssuesResolved_def mark_all_apply)
  next
    case (Some m)
    with Pair have "tracked sonarKeys h (m, h')"
      unfolding checkMultipleIssuesResolved_try_def
      by (intro tracked_process_batches[OF tracked_init]) simp
    then obtain new where "m = status_of sonarKeys new" by (auto simp: tracked_def)
    with Pair Some assms show ?thesis
      by (simp add: checkMultipleIssuesResolved_def status_of_def)
  qed
qed

lemma process_ticket_known:
  assumes "extract_key t = Some k" and "m k = Some True \<or> m k = Some False"
  shows "fst (process_ticket env m t h) \<noteq> UnknownStatus"
proof -
  from assms(1) obtain paragraphs z nodes where
    cf: "customfield_11972 t = Some ((Some z # nodes) # paragraphs)" and
    key: "trim z = k" and tr: "truthy (Some k)"
    by (auto simp: extract_key_def Let_def split: option.splits list.splits if_splits)
  show ?thesis
  proof (cases "status_name t")
    case None
    with cf show ?thesis by (simp add: process_ticket_def Let_def)
  next
    case (Some ticketStatus)
    from assms(2) show ?thesis
    proof
      assume "m k = Some True"
      with cf key tr Some show ?thesis
        by (simp add: process_ticket_def Let_def get_property_def split: prod.splits bool.splits)
    next
      assume "m k = Some False"
      with cf key tr Some show ?thesis
        by (simp add: process_ticket_def Let_def get_property_def)
    qed
  qed
qed

text \<open>
  The reconciliation example of the specification: for the identifiers \<^verbatim>\<open>k1\<close>,
  \<^verbatim>\<open>k2\<close>, an issue search that returns \<^verbatim>\<open>k1\<close> and a hotspot query that does not find
  \<^verbatim>\<open>k2\<close>, the result maps \<^verbatim>\<open>k1\<close> to false and \<^verbatim>\<open>k2\<close> to true.
\<close>

lemma scanner_k1_run:
  "checkMultipleIssuesResolved_try scanner_k1 [''k1'', ''k2''] [] =
     (Some (mark_all False [''k1''] (mark_all True [''k1'', ''k2''] Map.empty)),
      [SonarIssueSearch [''k1'', ''k2''] (Http 200 (Some [''k1''])),
       SonarHotspotShow ''k2'' (Http 200 (Some (HotspotBody [''Hotspot not found''] None)))])"
  by (simp add: checkMultipleIssuesResolved_try_def slices_short check_batch_def check_issues_def
        check_hotspot_def fetchWithRetry_unfold scanner_k1_def offline_def ok_def mark_all_apply
        get_property_def
      del: slices.simps)

lemma reconciliation_example:
  "fst (checkMultipleIssuesResolved scanner_k1 [''k1'', ''k2''] []) ''k1'' = Some False \<and>
   fst (checkMultipleIssuesResolved scanner_k1 [''k1'', ''k2''] []) ''k2'' = Some True"
  by (simp add: checkMultipleIssuesResolved_def scanner_k1_run mark_all_apply)

text \<open>
  C1. The identifier \<^verbatim>\<open>__proto__\<close>: with a scanner that confirms it absent, the
  initial assignment of true leaves the object unchanged, the identifier is not among
  the keys queried as hotspots, and the map returned has no entry for it (reading it
  gives the prototype object, not true); with a scanner whose issue search reports it,
  the assignment of false leaves the object unchanged as well, and the map returned
  does not map it to false.
\<close>

theorem checkMultipleIssuesResolved_proto_key_unmarked:
  "checkMultipleIssuesResolved absent_scanner [''__proto__''] [] =
     (Map.empty, [SonarIssueSearch [''__proto__''] (Http 200 (Some []))]) \<and>
   get_property (fst (checkMultipleIssuesResolved absent_scanner [''__proto__''] [])) ''__proto__''
     = Inherited \<and>
   checkMultipleIssuesResolved proto_scanner [''__proto__''] [] =
     (Map.empty, [SonarIssueSearch [''__proto__''] (Http 200 (Some [''__proto__'']))]) \<and>
   get_property (fst (checkMultipleIssuesResolved proto_scanner [''__proto__''] [])) ''__proto__''
     = Inherited"
proof -
  have a: "checkMultipleIssuesResolved absent_scanner [''__proto__''] [] =
     (Map.empty, [SonarIssueSearch [''__proto__''] (Http 200 (Some []))])"
    by (simp add: checkMultipleIssuesResolved_def checkMultipleIssuesResolved_try_def slices_short
          check_batch_def check_issues_def check_hotspot_def fetchWithRetry_unfold
          absent_scanner_def offline_def ok_def mark_all_def set_property_def get_property_def
          object_prototype_names_def
        del: slices.simps)
  have b: "checkMultipleIssuesResolved proto_scanner [''__proto__''] [] =
     (Map.empty, [SonarIssueSearch [''__proto__''] (Http 200 (Some [''__proto__'']))])"
    by (simp add: checkMultipleIssuesResolved_def checkMultipleIssuesResolved_try_def slices_short
          check_batch_def check_issues_def check_hotspot_def fetchWithRetry_unfold
          proto_scanner_def offline_def ok_def mark_all_def set_property_def get_property_def
          object_prototype_names_def
        del: slices.simps)
  show ?thesis
    by (simp add: a b get_property_def object_prototype_names_def)
qed

section \<open>The resolution check under failed requests and for inherited property names\<close>








lemma proto_pages:
  "fetch_all_tickets proto_ticket_tracker 0 [] [] =
     Some (Inr [ticket_proto], [JiraSearchOpen 0 (Http 200 (Some (Page (Some [ticket_proto]) 1)))])"
  by (subst fetch_all_tickets.simps)
     (simp add: fetch_page_def Let_def fetchWithRetry_unfold proto_ticket_tracker_def
        absent_scanner_def offline_def ok_def)

lemma ticket_proto_key: "extract_key ticket_proto = Some ''__proto__''"
  by (simp add: extract_key_def ticket_proto_def trim_def is_space_def truthy_def)

lemma proto_check:
  "checkMultipleIssuesResolved proto_ticket_tracker [''__proto__''] h =
     (Map.empty, h @ [SonarIssueSearch [''__proto__''] (Http 200 (Some []))])"
  by (simp add: checkMultipleIssuesResolved_def checkMultipleIssuesResolved_try_def slices_short
        check_batch_def check_issues_def check_hotspot_def fetchWithRetry_unfold Let_def
        proto_ticket_tracker_def absent_scanner_def offline_def ok_def mark_all_def
        set_property_def get_property_def object_prototype_names_def
      del: slices.simps)

lemma proto_ticket_unknown:
  "process_ticket proto_ticket_tracker Map.empty ticket_proto h = (UnknownStatus, h)"
proof -
  have f: "customfield_11972 ticket_proto = Some [[Some ''__proto__'']]"
          "status_name ticket_proto = Some ''Open''"
    by (simp_all add: ticket_proto_def)
  have t: "trim ''__proto__'' = ''__proto__''" by (simp add: trim_def is_space_def)
  show ?thesis
    by (simp add: process_ticket_def f t Let_def truthy_def get_property_def
          object_prototype_names_def)
qed

text \<open>
  C10. A ticket whose reference text is \<^verbatim>\<open>__proto__\<close>: the identifier is extracted and
  submitted to \<^verbatim>\<open>checkMultipleIssuesResolved\<close>, the map returned has no entry for it,
  and the closure pass takes the unknown-resolution-status branch for the ticket, which
  is counted as an error.
\<close>

theorem resolution_map_misses_proto_key:
  "extract_key ticket_proto = Some ''__proto__'' \<and>
   checkMultipleIssuesResolved proto_ticket_tracker [''__proto__'']
       [JiraSearchOpen 0 (Http 200 (Some (Page (Some [ticket_proto]) 1)))] =
     (Map.empty,
      [JiraSearchOpen 0 (Http 200 (Some (Page (Some [ticket_proto]) 1))),
       SonarIssueSearch [''__proto__''] (Http 200 (Some []))]) \<and>
   process_ticket proto_ticket_tracker Map.empty ticket_proto
       [JiraSearchOpen 0 (Http 200 (Some (Page (Some [ticket_proto]) 1))),
        SonarIssueSearch [''__proto__''] (Http 200 (Some []))] =
     (UnknownStatus,
      [JiraSearchOpen 0 (Http 200 (Some (Page (Some [ticket_proto]) 1))),
       SonarIssueSearch [''__proto__''] (Http 200 (Some []))]) \<and>
   closeResolvedJiraTickets proto_ticket_tracker [] =
     Some (Inr [(''ticketsChecked'', 1), (''ticketsClosed'', 0), (''ticketsNotResolved'', 0),
                (''ticketsWithErrors'', 1)],
           [JiraSearchOpen 0 (Http 200 (Some (Page (Some [ticket_proto]) 1))),
            SonarIssueSearch [''__proto__''] (Http 200 (Some []))])"
  by (simp add: closeResolvedJiraTickets_def Let_def proto_pages ticket_proto_key proto_check
        process_tickets_def process_group_def slices_short proto_ticket_unknown is_error_def
      del: slices.simps)

section \<open>Properties of closeJiraTicket and of the ticket payload\<close>

lemma attempts_events:
  "attempts call mk n h = (r, h') \<Longrightarrow> \<exists>new. h' = h @ new \<and> (\<forall>e\<in>set new. \<exists>x. e = mk x)"
proof (induction n arbitrary: h)
  case 0
  then show ?case by simp
next
  case (Suc left)
  show ?case
  proof (cases "attempts call mk left (h @ [mk (call h)]) = (r, h')")
    case True
    from Suc.IH[OF this] obtain new where
      "h' = (h @ [mk (call h)]) @ new" "\<forall>e\<in>set new. \<exists>x. e = mk x" by blast
    then show ?thesis by (intro exI[of _ "mk (call h) # new"]) auto
  next
    case False
    with Suc.prems have "h' = h @ [mk (call h)]"
      by (auto simp: Let_def split: response.splits if_splits)
    then show ?thesis by auto
  qed
qed

lemma fetchWithRetry_events:
  "fetchWithRetry call mk h = (r, h') \<Longrightarrow> \<exists>new. h' = h @ new \<and> (\<forall>e\<in>set new. \<exists>x. e = mk x)"
  unfolding fetchWithRetry_def by (rule attempts_events)

lemma attempts_Returned_ok: "attempts call mk n h = (Returned status body, h') \<Longrightarrow> ok status"
  by (induction n arbitrary: h) (auto simp: Let_def split: response.splits if_splits)

lemma fetchWithRetry_Returned_ok: "fetchWithRetry call mk h = (Returned status body, h') \<Longrightarrow> ok status"
  unfolding fetchWithRetry_def by (rule attempts_Returned_ok)

lemma attempts_NoResponse: "attempts call mk n h = (NoResponse, h') \<Longrightarrow> n = 0"
proof (induction n arbitrary: h)
  case 0
  show ?case by simp
next
  case (Suc left)
  show ?case
  proof (cases "left = 0")
    case True
    with Suc.prems show ?thesis by (simp add: Let_def split: response.splits if_splits)
  next
    case False
    with Suc.prems have "attempts call mk left (h @ [mk (call h)]) = (NoResponse, h')"
      by (simp add: Let_def split: response.splits if_splits)
    from Suc.IH[OF this] False show ?thesis by simp
  qed
qed

lemma fetchWithRetry_responds: "fetchWithRetry call mk h \<noteq> (NoResponse, h')"
  unfolding fetchWithRetry_def using attempts_NoResponse[of call mk 3 h h'] by auto

lemma attempts_first_event:
  "attempts call mk (Suc n) h = (r, h') \<Longrightarrow> \<exists>rest. h' = h @ mk (call h) # rest"
proof -
  assume a: "attempts call mk (Suc n) h = (r, h')"
  show ?thesis
  proof (cases "attempts call mk n (h @ [mk (call h)]) = (r, h')")
    case True
    from attempts_events[OF this] show ?thesis by auto
  next
    case False
    with a have "h' = h @ [mk (call h)]"
      by (auto simp: Let_def split: response.splits if_splits)
    then show ?thesis by auto
  qed
qed

lemma fetchWithRetry_first_event:
  "fetchWithRetry call mk h = (r, h') \<Longrightarrow> \<exists>rest. h' = h @ mk (call h) # rest"
  unfolding fetchWithRetry_unfold by (rule attempts_first_event)

lemma select_transition_first_match:
  "select_transition names ts =
     (case filter (\<lambda>p. p \<in> transition_name ` set ts) names of
        [] \<Rightarrow> None
      | p # ps \<Rightarrow> find (\<lambda>t. transition_name t = p) ts)"
proof (induction names)
  case Nil
  show ?case by simp
next
  case (Cons preferredName names)
  show ?case
  proof (cases "find (\<lambda>t. transition_name t = preferredName) ts")
    case None
    then have "preferredName \<notin> transition_name ` set ts"
      by (auto simp: find_None_iff)
    with None Cons.IH show ?thesis by simp
  next
    case (Some t)
    then have "preferredName \<in> transition_name ` set ts"
      by (metis (mono_tags, lifting) find_Some_iff image_eqI nth_mem)
    with Some show ?thesis by simp
  qed
qed

lemma select_transition_None:
  "\<forall>t\<in>set ts. transition_name t \<notin> set names \<Longrightarrow> select_transition names ts = None"
proof -
  assume "\<forall>t\<in>set ts. transition_name t \<notin> set names"
  then have "filter (\<lambda>p. p \<in> transition_name ` set ts) names = []"
    by (auto simp: filter_empty_conv)
  then show ?thesis by (simp add: select_transition_first_match)
qed

text \<open>
  A response handed back by \<^verbatim>\<open>fetchWithRetry\<close> is always ok, so the branch of
  \<^verbatim>\<open>closeJiraTicket\<close> that retries without the comment is never taken.
\<close>

lemma closeJiraTicket_apply:
  assumes "fetchWithRetry (\<lambda>h. jira_get_transitions env h key) (JiraGetTransitions key) h
             = (Returned status (Some ts), h1)"
      and "select_transition preferredTransitions ts = Some t"
      and "transition_id t \<noteq> []"
  shows "closeJiraTicket env key sk h =
           (case fetchWithRetry
                   (\<lambda>h. jira_post_transition env h key
                          (TransitionRequest True (resolutionId_of (transition_name t)) (transition_id t)))
                   (JiraPostTransition key
                          (TransitionRequest True (resolutionId_of (transition_name t)) (transition_id t)))
                   h1 of
              (Returned status2 body2, h2) \<Rightarrow> (True, h2)
            | (Threw e, h2) \<Rightarrow> (False, h2)
            | (NoResponse, h2) \<Rightarrow> (False, h2))"
  using assms fetchWithRetry_Returned_ok[OF assms(1)]
  by (auto simp: closeJiraTicket_def Let_def split: prod.splits fetched.splits
           dest: fetchWithRetry_Returned_ok)

lemma closeJiraTicket_no_match:
  assumes "fetchWithRetry (\<lambda>h. jira_get_transitions env h key) (JiraGetTransitions key) h
             = (Returned status (Some ts), h1)"
      and "select_transition preferredTransitions ts = None"
  shows "closeJiraTicket env key sk h = (False, h1)"
  using assms by (simp add: closeJiraTicket_def)

text \<open>
  C5. Given the transitions the tracker offers for a ticket, \<^verbatim>\<open>closeJiraTicket\<close>
  selects the transition found for the first name of the list "wont do", "Done",
  "Closed", "Resolved", "Verified" that some offered transition carries, and its first
  request after the transition fetch applies that transition; when no offered
  transition carries a name of the list, it returns false and sends nothing after the
  transition fetch.
\<close>

theorem closeJiraTicket_selects_first_preferred:
  assumes fetched:
    "fetchWithRetry (\<lambda>h. jira_get_transitions env h key) (JiraGetTransitions key) h
       = (Returned status (Some ts), h1)"
  shows "select_transition preferredTransitions ts =
           (case filter (\<lambda>p. p \<in> transition_name ` set ts)
                   [''wont do'', ''Done'', ''Closed'', ''Resolved'', ''Verified''] of
              [] \<Rightarrow> None
            | p # ps \<Rightarrow> find (\<lambda>t. transition_name t = p) ts) \<and>
         (\<forall>t. (case filter (\<lambda>p. p \<in> transition_name ` set ts)
                      [''wont do'', ''Done'', ''Closed'', ''Resolved'', ''Verified''] of
                 [] \<Rightarrow> None
               | p # ps \<Rightarrow> find (\<lambda>t. transition_name t = p) ts) = Some t
              \<and> transition_id t \<noteq> [] \<longrightarrow>
              (\<exists>r rest. drop (length h1) (snd (closeJiraTicket env key sk h)) =
                 JiraPostTransition key
                   (TransitionRequest True (resolutionId_of (transition_name t)) (transition_id t)) r
                 # rest)) \<and>
         ((\<forall>t\<in>set ts. transition_name t
                \<notin> {''wont do'', ''Done'', ''Closed'', ''Resolved'', ''Verified''}) \<longrightarrow>
              closeJiraTicket env key sk h = (False, h1))"
proof (intro conjI allI impI)
  show first: "select_transition preferredTransitions ts =
           (case filter (\<lambda>p. p \<in> transition_name ` set ts)
                   [''wont do'', ''Done'', ''Closed'', ''Resolved'', ''Verified''] of
              [] \<Rightarrow> None
            | p # ps \<Rightarrow> find (\<lambda>t. transition_name t = p) ts)"
    using select_transition_first_match[of preferredTransitions ts]
    by (simp only: preferredTransitions_def)
  fix t
  assume "(case filter (\<lambda>p. p \<in> transition_name ` set ts)
                      [''wont do'', ''Done'', ''Closed'', ''Resolved'', ''Verified''] of
                 [] \<Rightarrow> None
               | p # ps \<Rightarrow> find (\<lambda>t. transition_name t = p) ts) = Some t
              \<and> transition_id t \<noteq> []"
  with first have sel: "select_transition preferredTransitions ts = Some t \<and> transition_id t \<noteq> []"
    by simp
  let ?req = "TransitionRequest True (resolutionId_of (transition_name t)) (transition_id t)"
  obtain r2 h2 where post:
    "fetchWithRetry (\<lambda>h. jira_post_transition env h key ?req) (JiraPostTransition key ?req) h1 = (r2, h2)"
    by (cases "fetchWithRetry (\<lambda>h. jira_post_transition env h key ?req) (JiraPostTransition key ?req) h1")
  from fetchWithRetry_first_event[OF post] obtain rest where
    h2: "h2 = h1 @ JiraPostTransition key ?req (jira_post_transition env h1 key ?req) # rest"
    by blast
  have "snd (closeJiraTicket env key sk h) = h2"
    using closeJiraTicket_apply[OF fetched, of t sk] sel post
    by (simp split: fetched.splits)
  with h2 show "\<exists>r rest. drop (length h1) (snd (closeJiraTicket env key sk h)) =
                 JiraPostTransition key ?req r # rest"
    by simp
next
  assume "\<forall>t\<in>set ts. transition_name t
            \<notin> {''wont do'', ''Done'', ''Closed'', ''Resolved'', ''Verified''}"
  then have "\<forall>t\<in>set ts. transition_name t \<notin> set preferredTransitions"
    by (simp add: preferredTransitions_def)
  then have "select_transition preferredTransitions ts = None"
    by (rule select_transition_None)
  with fetched show "closeJiraTicket env key sk h = (False, h1)"
    by (rule closeJiraTicket_no_match)
qed

lemma workflow_tracker_transitions:
  "fetchWithRetry (\<lambda>h. jira_get_transitions workflow_tracker h ''LV-7'') (JiraGetTransitions ''LV-7'') []
     = (Returned 200 (Some all_offered), [JiraGetTransitions ''LV-7'' (Http 200 (Some all_offered))])"
  by (simp add: fetchWithRetry_unfold workflow_tracker_def offline_def ok_def)

lemma other_only_tracker_transitions:
  "fetchWithRetry (\<lambda>h. jira_get_transitions other_only_tracker h ''LV-7'') (JiraGetTransitions ''LV-7'') []
     = (Returned 200 (Some [\<lparr>transition_id = ''2'', transition_name = ''Other''\<rparr>]),
        [JiraGetTransitions ''LV-7''
           (Http 200 (Some [\<lparr>transition_id = ''2'', transition_name = ''Other''\<rparr>]))])"
  by (simp add: fetchWithRetry_unfold other_only_tracker_def offline_def ok_def)

theorem closeJiraTicket_selects_first_preferred_witness:
  "select_transition preferredTransitions all_offered
     = Some \<lparr>transition_id = ''3'', transition_name = ''wont do''\<rparr> \<and>
   select_transition preferredTransitions (take 5 all_offered)
     = Some \<lparr>transition_id = ''5'', transition_name = ''Done''\<rparr> \<and>
   select_transition preferredTransitions (take 4 all_offered)
     = Some \<lparr>transition_id = ''7'', transition_name = ''Closed''\<rparr> \<and>
   select_transition preferredTransitions (take 3 all_offered)
     = Some \<lparr>transition_id = ''8'', transition_name = ''Resolved''\<rparr> \<and>
   select_transition preferredTransitions (take 2 all_offered)
     = Some \<lparr>transition_id = ''9'', transition_name = ''Verified''\<rparr> \<and>
   select_transition preferredTransitions (take 1 all_offered) = None \<and>
   closeJiraTicket workflow_tracker ''LV-7'' ''k1'' [] =
     (True,
      [JiraGetTransitions ''LV-7'' (Http 200 (Some all_offered)),
       JiraPostTransition ''LV-7'' (TransitionRequest True ''10001'' ''3'') (Http 204 None)]) \<and>
   closeJiraTicket other_only_tracker ''LV-7'' ''k1'' [] =
     (False,
      [JiraGetTransitions ''LV-7''
         (Http 200 (Some [\<lparr>transition_id = ''2'', transition_name = ''Other''\<rparr>]))])"
proof -
  note A = closeJiraTicket_selects_first_preferred[OF workflow_tracker_transitions, of "''k1''"]
  note B = closeJiraTicket_selects_first_preferred[OF other_only_tracker_transitions, of "''k1''"]
  have sel: "select_transition preferredTransitions all_offered
               = Some \<lparr>transition_id = ''3'', transition_name = ''wont do''\<rparr>"
    using A by (simp add: all_offered_def)
  have none: "closeJiraTicket other_only_tracker ''LV-7'' ''k1'' [] =
     (False,
      [JiraGetTransitions ''LV-7''
         (Http 200 (Some [\<lparr>transition_id = ''2'', transition_name = ''Other''\<rparr>]))])"
    using B by simp
  have run: "closeJiraTicket workflow_tracker ''LV-7'' ''k1'' [] =
     (True,
      [JiraGetTransitions ''LV-7'' (Http 200 (Some all_offered)),
       JiraPostTransition ''LV-7'' (TransitionRequest True ''10001'' ''3'') (Http 204 None)])"
    using closeJiraTicket_apply[OF workflow_tracker_transitions sel, of "''k1''"]
    by (simp add: fetchWithRetry_unfold workflow_tracker_def offline_def ok_def
          resolutionId_of_def transitionResolutionMap_def truthy_def)
  have rest:
    "select_transition preferredTransitions (take 5 all_offered)
       = Some \<lparr>transition_id = ''5'', transition_name = ''Done''\<rparr>"
    "select_transition preferredTransitions (take 4 all_offered)
       = Some \<lparr>transition_id = ''7'', transition_name = ''Closed''\<rparr>"
    "select_transition preferredTransitions (take 3 all_offered)
       = Some \<lparr>transition_id = ''8'', transition_name = ''Resolved''\<rparr>"
    "select_transition preferredTransitions (take 2 all_offered)
       = Some \<lparr>transition_id = ''9'', transition_name = ''Verified''\<rparr>"
    "select_transition preferredTransitions (take 1 all_offered) = None"
    by (simp_all add: preferredTransitions_def all_offered_def)
  from sel none run rest show ?thesis by simp
qed

lemma closeJiraTicket_requests:
  "\<forall>e\<in>set (drop (length h) (snd (closeJiraTicket env key sk h))).
      (\<exists>x. e = JiraGetTransitions key x)
    \<or> (\<exists>req x. e = JiraPostTransition key req x \<and> with_comment req)"
proof -
  let ?P = "\<lambda>e. (\<exists>x. e = JiraGetTransitions key x)
                \<or> (\<exists>req x. e = JiraPostTransition key req x \<and> with_comment req)"
  obtain r1 h1 where get:
    "fetchWithRetry (\<lambda>h. jira_get_transitions env h key) (JiraGetTransitions key) h = (r1, h1)"
    by (cases "fetchWithRetry (\<lambda>h. jira_get_transitions env h key) (JiraGetTransitions key) h")
  from fetchWithRetry_events[OF get] obtain new1 where
    h1: "h1 = h @ new1" and new1: "\<forall>e\<in>set new1. ?P e" by blast
  show ?thesis
  proof (cases "\<exists>status ts t. r1 = Returned status (Some ts)
                  \<and> select_transition preferredTransitions ts = Some t \<and> transition_id t \<noteq> []")
    case True
    then obtain status ts t where r1: "r1 = Returned status (Some ts)"
      and sel: "select_transition preferredTransitions ts = Some t" and tid: "transition_id t \<noteq> []"
      by blast
    let ?req = "TransitionRequest True (resolutionId_of (transition_name t)) (transition_id t)"
    obtain r2 h2 where post:
      "fetchWithRetry (\<lambda>h. jira_post_transition env h key ?req) (JiraPostTransition key ?req) h1 = (r2, h2)"
      by (cases "fetchWithRetry (\<lambda>h. jira_post_transition env h key ?req) (JiraPostTransition key ?req) h1")
    from fetchWithRetry_events[OF post] obtain new2 where
      h2: "h2 = h1 @ new2" and new2: "\<forall>e\<in>set new2. ?P e" by fastforce
    have "snd (closeJiraTicket env key sk h) = h2"
      using closeJiraTicket_apply[OF get[unfolded r1] sel tid, of sk] post
      by (simp split: fetched.splits)
    with h1 h2 new1 new2 show ?thesis by auto
  next
    case False
    then have "snd (closeJiraTicket env key sk h) = h1"
      using get
      by (auto simp: closeJiraTicket_def split: fetched.splits option.splits)
    with h1 new1 show ?thesis by auto
  qed
qed

text \<open>
  C6. A tracker that answers the transition request carrying the comment with status 400
  and would accept the same transition without the comment: \<^verbatim>\<open>fetchWithRetry\<close>
  sends the combined request three times and raises, \<^verbatim>\<open>closeJiraTicket\<close> returns
  false, and neither the transition-only request nor the separate comment is ever sent.
\<close>

theorem closeJiraTicket_combined_failure_no_retry:
  "closeJiraTicket comment_rejecting_tracker ''LV-1'' ''k1'' [] =
     (False,
      [JiraGetTransitions ''LV-1''
         (Http 200 (Some [\<lparr>transition_id = ''31'', transition_name = ''Done''\<rparr>])),
       JiraPostTransition ''LV-1'' (TransitionRequest True ''10000'' ''31'') (Http 400 None),
       JiraPostTransition ''LV-1'' (TransitionRequest True ''10000'' ''31'') (Http 400 None),
       JiraPostTransition ''LV-1'' (TransitionRequest True ''10000'' ''31'') (Http 400 None)]) \<and>
   jira_post_transition comment_rejecting_tracker
     (snd (closeJiraTicket comment_rejecting_tracker ''LV-1'' ''k1'' []))
     ''LV-1'' (TransitionRequest False ''10000'' ''31'') = Http 204 None"
  by (simp add: preferredTransitions_def closeJiraTicket_def Let_def fetchWithRetry_unfold
        comment_rejecting_tracker_def offline_def ok_def resolutionId_of_def
        transitionResolutionMap_def truthy_def)


lemma dropWhile_keeps: "x \<in> set xs \<Longrightarrow> \<not> P x \<Longrightarrow> x \<in> set (dropWhile P xs)"
  by (induction xs) auto

lemma trim_nonempty:
  assumes "c \<in> set s" and "\<not> is_space c"
  shows "trim s \<noteq> []"
proof -
  from assms have "c \<in> set (rev (dropWhile is_space s))"
    by (simp add: dropWhile_keeps)
  from this assms(2) have "c \<in> set (dropWhile is_space (rev (dropWhile is_space s)))"
    by (rule dropWhile_keeps)
  then have "dropWhile is_space (rev (dropWhile is_space s)) \<noteq> []"
    by (metis empty_iff empty_set)
  then show ?thesis unfolding trim_def by (metis rev_is_Nil_conv)
qed

lemma summary_of_nonblank: "trim (summary_of item) \<noteq> []"
proof (cases "length (item_message item @ '' in '' @ fileName_of (item_component item)) > 254")
  case True
  have "CHR ''.'' \<in> set (summary_of item)"
    using True by (simp add: summary_of_def Let_def)
  moreover have "\<not> is_space CHR ''.''" by (simp add: is_space_def)
  ultimately show ?thesis by (rule trim_nonempty)
next
  case False
  have "CHR ''i'' \<in> set (summary_of item)"
    using False by (simp add: summary_of_def Let_def)
  moreover have "\<not> is_space CHR ''i''" by (simp add: is_space_def)
  ultimately show ?thesis by (rule trim_nonempty)
qed

text \<open>The checks on the payload never fail: the summary always holds a visible character.\<close>

lemma createJiraTicket_eq:
  "createJiraTicket cfg env existingTicketsMap userAccountCache itemType item (createdTickets, h) =
     (if property_truthy (get_property existingTicketsMap (item_key item))
      then (createdTickets, h)
      else
        (case fetchWithRetry
                (\<lambda>h. jira_create_issue env h (jiraPayload cfg userAccountCache item itemType))
                (JiraCreateIssue (jiraPayload cfg userAccountCache item itemType)) h of
           (Returned status (Some newKey), h') \<Rightarrow>
              if ok status then (createdTickets @ [newKey], h') else (createdTickets, h')
         | (r, h') \<Rightarrow> (createdTickets, h')))"
proof -
  have "fields_summary (jiraPayload cfg userAccountCache item itemType) = summary_of item"
       "fields_project (jiraPayload cfg userAccountCache item itemType) = jiraDefaultProject"
       "fields_issuetype (jiraPayload cfg userAccountCache item itemType) = ''Bug''"
    by (simp_all add: jiraPayload_def Let_def)
  then show ?thesis
    by (simp add: createJiraTicket_def Let_def summary_of_nonblank jiraDefaultProject_def
             split: prod.splits fetched.splits option.splits)
qed

lemma truthy_property: "truthy (obj k) \<Longrightarrow> property_truthy (get_property obj k)"
  by (cases "obj k") (simp_all add: truthy_def get_property_def property_truthy_def)

lemma createJiraTicket_events:
  "\<exists>new. snd (createJiraTicket cfg env idx cache itemType item (createdTickets, h)) = h @ new \<and>
         (\<forall>e\<in>set new. \<exists>r. e = JiraCreateIssue (jiraPayload cfg cache item itemType) r) \<and>
         (truthy (idx (item_key item)) \<longrightarrow> new = [])"
proof (cases "property_truthy (get_property idx (item_key item))")
  case True
  then show ?thesis by (simp add: createJiraTicket_eq)
next
  case False
  then have nt: "\<not> truthy (idx (item_key item))" using truthy_property by blast
  let ?p = "jiraPayload cfg cache item itemType"
  obtain r h' where f: "fetchWithRetry (\<lambda>h. jira_create_issue env h ?p) (JiraCreateIssue ?p) h = (r, h')"
    by (cases "fetchWithRetry (\<lambda>h. jira_create_issue env h ?p) (JiraCreateIssue ?p) h")
  from fetchWithRetry_events[OF f] obtain new where
    "h' = h @ new" "\<forall>e\<in>set new. \<exists>x. e = JiraCreateIssue ?p x" by blast
  moreover have "snd (createJiraTicket cfg env idx cache itemType item (createdTickets, h)) = h'"
    using False f by (simp add: createJiraTicket_eq split: fetched.splits option.splits)
  ultimately show ?thesis using nt by auto
qed

text \<open>
  C4. The priority of the payload built for an issue is Highest exactly when its severity
  is BLOCKER or CRITICAL, and High otherwise; for a hotspot it is Highest exactly when
  the vulnerability probability is HIGH or MEDIUM, and High otherwise (so for LOW); and
  every create request \<^verbatim>\<open>createJiraTicket\<close> sends for a finding carries that payload.
\<close>

theorem ticket_priority_from_severity:
  "(fields_priority (jiraPayload cfg cache item ''issue'') = ''Highest'' \<longleftrightarrow>
      item_severity item = Some ''BLOCKER'' \<or> item_severity item = Some ''CRITICAL'') \<and>
   (fields_priority (jiraPayload cfg cache item ''issue'') = ''High'' \<longleftrightarrow>
      \<not> (item_severity item = Some ''BLOCKER'' \<or> item_severity item = Some ''CRITICAL'')) \<and>
   (fields_priority (jiraPayload cfg cache item ''hotspot'') = ''Highest'' \<longleftrightarrow>
      item_vulnerabilityProbability item = Some ''HIGH''
    \<or> item_vulnerabilityProbability item = Some ''MEDIUM'') \<and>
   (fields_priority (jiraPayload cfg cache item ''hotspot'') = ''High'' \<longleftrightarrow>
      \<not> (item_vulnerabilityProbability item = Some ''HIGH''
         \<or> item_vulnerabilityProbability item = Some ''MEDIUM'')) \<and>
   fields_priority
     (jiraPayload cfg cache (item\<lparr>item_vulnerabilityProbability := Some ''LOW''\<rparr>) ''hotspot'')
     = ''High'' \<and>
   (\<forall>e\<in>set (drop (length h)
               (snd (createJiraTicket cfg env idx cache itemType item (createdTickets, h)))).
      \<exists>r. e = JiraCreateIssue (jiraPayload cfg cache item itemType) r)"
proof -
  from createJiraTicket_events[of cfg env idx cache itemType item createdTickets h]
  have "\<forall>e\<in>set (drop (length h)
               (snd (createJiraTicket cfg env idx cache itemType item (createdTickets, h)))).
      \<exists>r. e = JiraCreateIssue (jiraPayload cfg cache item itemType) r"
    by auto
  then show ?thesis
    by (simp add: jiraPayload_def Let_def priorityName_def)
qed

lemma critical_issue_payload:
  "jiraPayload shop_config [''dev@example.com'' \<mapsto> ''acc-1''] critical_issue ''issue'' =
     \<lparr>fields_project = ''LV'',
      fields_summary = ''Null dereference in src/app.js'',
      fields_description =
        [''Issue Details'', ''Project: Shop (shop)'', ''Message: Null dereference'',
         ''File: src/app.js'',
         ''https://sonar.example/project/issues?resolved=false&types=BUG&id=shop&issues=k1''],
      fields_issuetype = ''Bug'',
      fields_customfield_11972 = ''k1'',
      fields_priority = ''Highest'',
      fields_components = Some ''Backend'',
      fields_customfield_10200 = ''Others'',
      fields_customfield_11569 = ''Automation'',
      fields_assignee = Some ''acc-1''\<rparr>"
  by (simp add: jiraPayload_def Let_def shop_config_def critical_issue_def getProjectInfo_def
        summary_of_def fileName_of_def sonarPermalink_def priorityName_def truthy_def trim_def
        is_space_def jiraDefaultProject_def)

theorem ticket_priority_from_severity_witness:
  "JiraCreateIssue (jiraPayload shop_config [''dev@example.com'' \<mapsto> ''acc-1''] critical_issue ''issue'')
       (Http 201 (Some ''LV-1''))
     \<in> set (drop (length ([]::event list))
          (snd (createJiraTicket shop_config fresh_tracker Map.empty
                  [''dev@example.com'' \<mapsto> ''acc-1''] ''issue'' critical_issue ([], [])))) \<and>
   item_severity critical_issue = Some ''CRITICAL'' \<and>
   fields_priority (jiraPayload shop_config [''dev@example.com'' \<mapsto> ''acc-1''] critical_issue ''issue'')
     = ''Highest''"
  using ticket_priority_from_severity[of shop_config "[''dev@example.com'' \<mapsto> ''acc-1'']" critical_issue "[]" fresh_tracker
              Map.empty "''issue''" "[]"]
  by (simp add: createJiraTicket_eq get_property_def object_prototype_names_def property_truthy_def truthy_def fetchWithRetry_unfold fresh_tracker_def offline_def
        ok_def critical_issue_def)

section \<open>Properties of the existence index\<close>

lemma index_batches_prefix_failed:
  assumes "all_indexed env pre s0 h0"
      and "index_batches env pre s0 h0 = (s, h)"
      and "index_batch env batch s h = (Inl e, h')"
  shows "index_batches env (pre @ batch # post) s0 h0 = (s, h')"
  using assms
proof (induction pre arbitrary: s0 h0)
  case Nil
  then show ?case by simp
next
  case (Cons b pre)
  obtain r h1 where step: "index_batch env b s0 h0 = (r, h1)"
    by (cases "index_batch env b s0 h0")
  show ?case
  proof (cases r)
    case (Inl e1)
    with step Cons.prems(1) show ?thesis by simp
  next
    case (Inr s1)
    with step Cons.prems have "all_indexed env pre s1 h1" "index_batches env pre s1 h1 = (s, h)"
      by simp_all
    from Cons.IH[OF this Cons.prems(3)] step Inr show ?thesis by simp
  qed
qed

text \<open>
  C7 (amended). When the search for one batch of the existence check fails, that batch
  contributes no entries and the build of the index stops: the batches after it are not
  queried and contribute nothing; the entries of the batches before it are kept, and the
  function goes on with that index.
\<close>

theorem existence_index_stops_at_failed_batch:
  assumes "all_indexed env pre s0 h0"
      and "index_batches env pre s0 h0 = (s, h)"
      and "index_batch env batch s h = (Inl e, h')"
  shows "index_batches env (pre @ batch # post) s0 h0 = (s, h') \<and>
         (s0 = (Map.empty, []) \<and> slices 50 allSonarKeys = pre @ batch # post \<longrightarrow>
            build_index env allSonarKeys h0 = (s, h'))"
proof -
  have loop: "index_batches env (pre @ batch # post) s0 h0 = (s, h')"
    using assms by (rule index_batches_prefix_failed)
  have "build_index env allSonarKeys h0 = (s, h')"
    if "s0 = (Map.empty, [])" and sl: "slices 50 allSonarKeys = pre @ batch # post"
  proof -
    from sl have "allSonarKeys \<noteq> []" by (cases "allSonarKeys = []") simp_all
    with loop that show ?thesis by (simp add: build_index_def del: slices.simps)
  qed
  with loop show ?thesis by blast
qed

lemma fifty_one_slices:
  "slices 50 fifty_one_keys = [take 50 fifty_one_keys, [''kO'']]"
proof -
  have d: "drop 50 fifty_one_keys = [''kO'']" by (simp add: fifty_one_keys_def)
  have n: "fifty_one_keys \<noteq> []" by (simp add: fifty_one_keys_def)
  have "slices 50 fifty_one_keys = take 50 fifty_one_keys # slices 50 (drop 50 fifty_one_keys)"
    using n by (subst slices.simps) simp
  also have "slices 50 (drop 50 fifty_one_keys) = [[''kO'']]"
    unfolding d by (rule slices_short) simp_all
  finally show ?thesis .
qed

lemma take_50_not_last: "take 50 fifty_one_keys \<noteq> [''kO'']"
  by (simp add: fifty_one_keys_def)

text \<open>
  The claim as stated fails: with fifty-one keys and a search that times out for the
  first batch, the second batch is never queried, although the tracker holds an open
  ticket for its key.
\<close>

theorem existence_index_later_batch_unchecked:
  "build_index late_ticket_tracker fifty_one_keys [] =
     ((Map.empty, []),
      [JiraSearchExisting (take 50 fifty_one_keys) (NetError ''timeout''),
       JiraSearchExisting (take 50 fifty_one_keys) (NetError ''timeout''),
       JiraSearchExisting (take 50 fifty_one_keys) (NetError ''timeout'')]) \<and>
   ''kO'' \<in> set fifty_one_keys \<and>
   jira_search_existing late_ticket_tracker
       (snd (build_index late_ticket_tracker fifty_one_keys [])) [''kO''] =
     Http 200 (Some [\<lparr>ticket_key = ''LV-9'', customfield_11972 = Some [[Some ''kO'']],
                      status_name = Some ''Open''\<rparr>])"
proof -
  have n: "fifty_one_keys \<noteq> []" by (simp add: fifty_one_keys_def)
  have "''kO'' \<in> set (drop 50 fifty_one_keys)" by (simp add: fifty_one_keys_def)
  then have m: "''kO'' \<in> set fifty_one_keys" by (rule in_set_dropD)
  show ?thesis
    using n m take_50_not_last
    by (simp add: build_index_def fifty_one_slices index_batch_def Let_def fetchWithRetry_unfold
          late_ticket_tracker_def offline_def del: slices.simps)
qed

lemma early_ticket_first:
  "index_batches early_ticket_tracker [take 50 fifty_one_keys] (Map.empty, []) [] =
     (([''k0'' \<mapsto> ''LV-1''], [''LV-1'']),
      [JiraSearchExisting (take 50 fifty_one_keys)
         (Http 200 (Some [\<lparr>ticket_key = ''LV-1'', customfield_11972 = Some [[Some ''k0'']],
                          status_name = Some ''Open''\<rparr>]))])"
  using take_50_not_last
  by (simp add: index_batch_def Let_def fetchWithRetry_unfold early_ticket_tracker_def offline_def
        ok_def index_ticket_def set_property_def)

lemma early_ticket_indexed:
  "all_indexed early_ticket_tracker [take 50 fifty_one_keys] (Map.empty, []) []"
  using take_50_not_last
  by (simp add: index_batch_def Let_def fetchWithRetry_unfold early_ticket_tracker_def offline_def
        ok_def)

lemma early_ticket_second:
  "index_batch early_ticket_tracker [''kO''] ([''k0'' \<mapsto> ''LV-1''], [''LV-1''])
     [JiraSearchExisting (take 50 fifty_one_keys)
        (Http 200 (Some [\<lparr>ticket_key = ''LV-1'', customfield_11972 = Some [[Some ''k0'']],
                         status_name = Some ''Open''\<rparr>]))]
   = (Inl (FetchError ''timeout''),
      [JiraSearchExisting (take 50 fifty_one_keys)
         (Http 200 (Some [\<lparr>ticket_key = ''LV-1'', customfield_11972 = Some [[Some ''k0'']],
                          status_name = Some ''Open''\<rparr>])),
       JiraSearchExisting [''kO''] (NetError ''timeout''),
       JiraSearchExisting [''kO''] (NetError ''timeout''),
       JiraSearchExisting [''kO''] (NetError ''timeout'')])"
  by (simp add: index_batch_def Let_def fetchWithRetry_unfold early_ticket_tracker_def offline_def)

theorem existence_index_stops_at_failed_batch_witness:
  "all_indexed early_ticket_tracker [take 50 fifty_one_keys] (Map.empty, []) [] \<and>
   slices 50 fifty_one_keys = [take 50 fifty_one_keys] @ [''kO''] # [] \<and>
   build_index early_ticket_tracker fifty_one_keys [] =
     (([''k0'' \<mapsto> ''LV-1''], [''LV-1'']),
      [JiraSearchExisting (take 50 fifty_one_keys)
         (Http 200 (Some [\<lparr>ticket_key = ''LV-1'', customfield_11972 = Some [[Some ''k0'']],
                          status_name = Some ''Open''\<rparr>])),
       JiraSearchExisting [''kO''] (NetError ''timeout''),
       JiraSearchExisting [''kO''] (NetError ''timeout''),
       JiraSearchExisting [''kO''] (NetError ''timeout'')])"
  using existence_index_stops_at_failed_batch[OF early_ticket_indexed early_ticket_first early_ticket_second,
           of "[]" fifty_one_keys]
        early_ticket_indexed
  by (simp add: fifty_one_slices del: slices.simps)

section \<open>Properties of lookupJiraUsers\<close>

lemma lookup_user_other:
  "e \<noteq> email \<Longrightarrow> fst (lookup_user env e s) email = fst s email"
  by (cases s) (simp add: lookup_user_def split: prod.splits fetched.splits option.splits list.splits)

lemma fold_lookup_user_other:
  "email \<notin> set es \<Longrightarrow> fst (fold (lookup_user env) es s) email = fst s email"
proof (induction es arbitrary: s)
  case Nil
  show ?case by simp
next
  case (Cons e es)
  then have "e \<noteq> email" "email \<notin> set es" by auto
  then show ?case using Cons.IH[of "lookup_user env e s"] by (simp add: lookup_user_other)
qed

lemma distinct_uniqueEmails: "distinct (uniqueEmails prjs)"
  by (simp add: uniqueEmails_def)

lemma lookup_user_answer:
  assumes "\<not> truthy (cache1 email)"
      and "fetchWithRetry (\<lambda>h. jira_user_search env h email) (JiraUserSearch email) h1
             = (Returned status (Some userData), h2)"
  shows "fst (lookup_user env email (cache1, h1)) email =
           (case userData of [] \<Rightarrow> cache1 email | user # others \<Rightarrow> Some user)"
  using assms fetchWithRetry_Returned_ok[OF assms(2)]
  by (simp add: lookup_user_def split: list.splits)

lemma lookupJiraUsers_at:
  assumes split: "uniqueEmails prjs = pre @ email # post"
      and before: "fold (lookup_user env) pre s0 = (cache1, h1)"
  shows "fst (lookupJiraUsers env prjs s0) email = fst (lookup_user env email (cache1, h1)) email"
    and "cache1 email = fst s0 email"
proof -
  from distinct_uniqueEmails[of prjs] split have "email \<notin> set pre" "email \<notin> set post"
    by auto
  then show "fst (lookupJiraUsers env prjs s0) email = fst (lookup_user env email (cache1, h1)) email"
    using before by (simp add: lookupJiraUsers_def split fold_lookup_user_other)
  from \<open>email \<notin> set pre\<close> have "fst (fold (lookup_user env) pre s0) email = fst s0 email"
    by (rule fold_lookup_user_other)
  with before show "cache1 email = fst s0 email" by simp
qed

text \<open>
  C8 (amended). For an assignee email that \<^verbatim>\<open>lookupJiraUsers\<close> looks up (it is not in
  the cache when its turn comes) and whose user search is answered: with zero matches
  the cache entry of that email stays as it was, the email stays unresolved, and the
  payload of a finding whose project has that assignee carries no assignee; with one or
  more matches the email is resolved to the account id of the first match.
\<close>

theorem user_lookup_zero_or_first_match:
  assumes split: "uniqueEmails prjs = pre @ email # post"
      and before: "fold (lookup_user env) pre s0 = (cache1, h1)"
      and looked_up: "\<not> truthy (cache1 email)"
      and answer: "fetchWithRetry (\<lambda>h. jira_user_search env h email) (JiraUserSearch email) h1
                     = (Returned status (Some userData), h2)"
  shows "(userData = [] \<longrightarrow>
            fst (lookupJiraUsers env prjs s0) email = fst s0 email \<and>
            \<not> truthy (fst (lookupJiraUsers env prjs s0) email) \<and>
            (\<forall>item itemType.
               info_assignee (getProjectInfo prjs (item_project item)) = Some email \<longrightarrow>
               fields_assignee
                 (jiraPayload \<lparr>projects = prjs, sonarBaseUrl = url\<rparr>
                    (fst (lookupJiraUsers env prjs s0)) item itemType) = None)) \<and>
         (\<forall>user others. userData = user # others \<longrightarrow>
            fst (lookupJiraUsers env prjs s0) email = Some user)"
proof -
  note at = lookupJiraUsers_at[OF split before]
  have final: "fst (lookupJiraUsers env prjs s0) email =
                 (case userData of [] \<Rightarrow> cache1 email | user # others \<Rightarrow> Some user)"
    using at(1) lookup_user_answer[of cache1 email env h1 status userData h2, OF looked_up answer]
    by simp
  show ?thesis
  proof (intro conjI impI allI)
    assume "userData = []"
    with final at(2) show "fst (lookupJiraUsers env prjs s0) email = fst s0 email" by simp
  next
    assume "userData = []"
    with final looked_up show "\<not> truthy (fst (lookupJiraUsers env prjs s0) email)" by simp
  next
    fix item :: finding and itemType
    assume "userData = []"
       and "info_assignee (getProjectInfo prjs (item_project item)) = Some email"
    with final looked_up show
      "fields_assignee
         (jiraPayload \<lparr>projects = prjs, sonarBaseUrl = url\<rparr>
            (fst (lookupJiraUsers env prjs s0)) item itemType) = None"
      by (simp add: jiraPayload_def Let_def)
  next
    fix user others
    assume "userData = user # others"
    with final show "fst (lookupJiraUsers env prjs s0) email = Some user" by simp
  qed
qed

lemma shop_emails: "uniqueEmails (projects shop_config) = [''dev@example.com'']"
  by (simp add: uniqueEmails_def shop_config_def truthy_def trim_def is_space_def)

lemma two_users_answer:
  "fetchWithRetry (\<lambda>h. jira_user_search two_users_tracker h ''dev@example.com'')
     (JiraUserSearch ''dev@example.com'') []
   = (Returned 200 (Some [''acc-1'', ''acc-2'']),
      [JiraUserSearch ''dev@example.com'' (Http 200 (Some [''acc-1'', ''acc-2'']))])"
  by (simp add: fetchWithRetry_unfold two_users_tracker_def offline_def ok_def)

lemma no_user_answer:
  "fetchWithRetry (\<lambda>h. jira_user_search no_user_tracker h ''dev@example.com'')
     (JiraUserSearch ''dev@example.com'') []
   = (Returned 200 (Some []), [JiraUserSearch ''dev@example.com'' (Http 200 (Some []))])"
  by (simp add: fetchWithRetry_unfold no_user_tracker_def offline_def ok_def)

text \<open>
  The claim as stated fails for several matches: a search that returns two users
  resolves the email to the first of them, and the ticket is assigned to that account.
\<close>

theorem user_lookup_multiple_matches_resolves:
  "jira_user_search two_users_tracker [] ''dev@example.com'' = Http 200 (Some [''acc-1'', ''acc-2'']) \<and>
   fst (lookupJiraUsers two_users_tracker (projects shop_config) (Map.empty, [])) ''dev@example.com''
     = Some ''acc-1'' \<and>
   fields_assignee
     (jiraPayload shop_config
        (fst (lookupJiraUsers two_users_tracker (projects shop_config) (Map.empty, [])))
        critical_issue ''issue'') = Some ''acc-1''"
proof -
  have c: "fst (lookupJiraUsers two_users_tracker (projects shop_config) (Map.empty, []))
             ''dev@example.com'' = Some ''acc-1''"
    by (simp add: lookupJiraUsers_def shop_emails lookup_user_def two_users_answer truthy_def ok_def)
  have "info_assignee (getProjectInfo (projects shop_config) (item_project critical_issue))
          = Some ''dev@example.com''"
    by (simp add: getProjectInfo_def shop_config_def critical_issue_def)
  with c show ?thesis
    by (simp add: jiraPayload_def Let_def truthy_def two_users_tracker_def offline_def)
qed

theorem user_lookup_zero_or_first_match_witness:
  "uniqueEmails (projects shop_config) = [] @ ''dev@example.com'' # [] \<and>
   \<not> truthy (Map.empty ''dev@example.com'') \<and>
   fst (lookupJiraUsers no_user_tracker (projects shop_config) (Map.empty, [])) ''dev@example.com''
     = None \<and>
   fields_assignee
     (jiraPayload \<lparr>projects = projects shop_config, sonarBaseUrl = ''https://sonar.example''\<rparr>
        (fst (lookupJiraUsers no_user_tracker (projects shop_config) (Map.empty, [])))
        critical_issue ''issue'') = None \<and>
   fst (lookupJiraUsers two_users_tracker (projects shop_config) (Map.empty, [])) ''dev@example.com''
     = Some ''acc-1''"
proof -
  have s: "uniqueEmails (projects shop_config) = [] @ ''dev@example.com'' # []"
    by (simp add: shop_emails)
  have b1: "fold (lookup_user no_user_tracker) [] (Map.empty, []) = (Map.empty, [])" by simp
  have b2: "fold (lookup_user two_users_tracker) [] (Map.empty, []) = (Map.empty, [])" by simp
  have l: "\<not> truthy (Map.empty ''dev@example.com'')" by (simp add: truthy_def)
  have a: "info_assignee (getProjectInfo (projects shop_config) (item_project critical_issue))
          = Some ''dev@example.com''"
    by (simp add: getProjectInfo_def shop_config_def critical_issue_def)
  from user_lookup_zero_or_first_match[OF s b1 l no_user_answer, of "''https://sonar.example''"]
       user_lookup_zero_or_first_match[OF s b2 l two_users_answer, of "''https://sonar.example''"] s l a
  show ?thesis by simp
qed

section \<open>Properties of closeResolvedJiraTickets and createJiraTickets\<close>

text \<open>
  C9. A run of \<^verbatim>\<open>closeResolvedJiraTickets\<close> in which the one ticket fetched has an
  empty reference text: no finding key can be extracted, and the object returned has
  the three properties \<^verbatim>\<open>ticketsChecked\<close>, \<^verbatim>\<open>ticketsClosed\<close> and
  \<^verbatim>\<open>ticketsNotResolved\<close> only; \<^verbatim>\<open>ticketsWithErrors\<close> is missing.
\<close>

theorem closeResolvedJiraTickets_early_return_shape:
  "closeResolvedJiraTickets empty_reference_tracker [] =
     Some (Inr [(''ticketsChecked'', 1), (''ticketsClosed'', 0), (''ticketsNotResolved'', 0)],
           [JiraSearchOpen 0
              (Http 200 (Some (Page (Some [\<lparr>ticket_key = ''LV-300'',
                                            customfield_11972 = Some [[Some []]],
                                            status_name = Some ''Open''\<rparr>]) 1)))]) \<and>
   map_of [(''ticketsChecked'', 1::nat), (''ticketsClosed'', 0), (''ticketsNotResolved'', 0)]
     ''ticketsWithErrors'' = None"
proof -
  have page: "fetch_page empty_reference_tracker 0 [] =
     (Inr ([\<lparr>ticket_key = ''LV-300'', customfield_11972 = Some [[Some []]],
              status_name = Some ''Open''\<rparr>], 1),
      [JiraSearchOpen 0
              (Http 200 (Some (Page (Some [\<lparr>ticket_key = ''LV-300'',
                                            customfield_11972 = Some [[Some []]],
                                            status_name = Some ''Open''\<rparr>]) 1)))])"
    by (simp add: fetch_page_def Let_def fetchWithRetry_unfold empty_reference_tracker_def
          offline_def ok_def)
  have all: "fetch_all_tickets empty_reference_tracker 0 [] [] =
     Some (Inr [\<lparr>ticket_key = ''LV-300'', customfield_11972 = Some [[Some []]],
              status_name = Some ''Open''\<rparr>],
      [JiraSearchOpen 0
              (Http 200 (Some (Page (Some [\<lparr>ticket_key = ''LV-300'',
                                            customfield_11972 = Some [[Some []]],
                                            status_name = Some ''Open''\<rparr>]) 1)))])"
    by (subst fetch_all_tickets.simps) (simp add: page)
  show ?thesis
    by (simp add: closeResolvedJiraTickets_def all extract_key_def Let_def trim_def truthy_def)
qed


lemma attempts_collect:
  assumes quiet: "\<And>x. \<not> is_ok x \<Longrightarrow> f (mk x) = []"
  shows "attempts call mk n h = (r, h') \<Longrightarrow>
         \<exists>new. h' = h @ new \<and>
               concat (map f new) =
                 (case r of Returned status body \<Rightarrow> f (mk (Http status body)) | _ \<Rightarrow> [])"
proof (induction n arbitrary: h)
  case 0
  then show ?case by simp
next
  case (Suc left)
  show ?case
  proof (cases "is_ok (call h)")
    case True
    then obtain status body where c: "call h = Http status body" and "ok status"
      by (cases "call h") (simp_all add: is_ok_def)
    with Suc.prems show ?thesis by auto
  next
    case False
    then have q: "f (mk (call h)) = []" by (rule quiet)
    show ?thesis
    proof (cases "left = 0")
      case True
      with Suc.prems False have "h' = h @ [mk (call h)]" "\<forall>status body. r \<noteq> Returned status body"
        by (auto simp: Let_def is_ok_def split: response.splits if_splits)
      with q show ?thesis
        by (intro exI[of _ "[mk (call h)]"]) (auto split: fetched.splits)
    next
      case nz: False
      with Suc.prems False have "attempts call mk left (h @ [mk (call h)]) = (r, h')"
        by (auto simp: Let_def is_ok_def split: response.splits if_splits)
      from Suc.IH[OF this] obtain new where
        "h' = (h @ [mk (call h)]) @ new" and
        "concat (map f new) =
           (case r of Returned status body \<Rightarrow> f (mk (Http status body)) | _ \<Rightarrow> [])"
        by blast
      with q show ?thesis
        by (intro exI[of _ "mk (call h) # new"]) simp
    qed
  qed
qed

lemma new_keys_quiet: "\<not> is_ok x \<Longrightarrow> new_keys (JiraCreateIssue p x) = []"
  by (cases "JiraCreateIssue p x" rule: new_keys.cases) (auto simp: is_ok_def)

lemma jiraPayload_reference:
  "fields_customfield_11972 (jiraPayload cfg cache item itemType) = item_key item"
  by (simp add: jiraPayload_def Let_def)

lemma creating_step:
  assumes "creating idx h2 c0 s"
  shows "creating idx h2 c0 (createJiraTicket cfg env idx cache itemType item s)"
proof -
  obtain c h where s: "s = (c, h)" by (cases s)
  from assms s obtain new where
    h: "h = h2 @ new" and c: "c = c0 @ concat (map new_keys new)" and
    cr: "\<forall>e\<in>set new. is_create e" and
    sub: "\<forall>k. truthy (idx k) \<longrightarrow> k \<notin> set (concat (map submitted new))"
    by (auto simp: creating_def)
  show ?thesis
  proof (cases "property_truthy (get_property idx (item_key item))")
    case True
    with assms s show ?thesis by (simp add: createJiraTicket_eq)
  next
    case False
    then have nt: "\<not> truthy (idx (item_key item))" using truthy_property by blast
    let ?p = "jiraPayload cfg cache item itemType"
    obtain r h' where f:
      "fetchWithRetry (\<lambda>h. jira_create_issue env h ?p) (JiraCreateIssue ?p) h = (r, h')"
      by (cases "fetchWithRetry (\<lambda>h. jira_create_issue env h ?p) (JiraCreateIssue ?p) h")
    from attempts_collect[where f=new_keys and mk="JiraCreateIssue ?p", OF new_keys_quiet
                            f[unfolded fetchWithRetry_def]]
    obtain add where h': "h' = h @ add" and
      keys: "concat (map new_keys add) =
               (case r of Returned status body \<Rightarrow> new_keys (JiraCreateIssue ?p (Http status body))
                | _ \<Rightarrow> [])"
      by blast
    from fetchWithRetry_events[OF f] h' have ev: "\<forall>e\<in>set add. \<exists>x. e = JiraCreateIssue ?p x"
      by auto
    have res: "createJiraTicket cfg env idx cache itemType item (c, h) =
                (c @ concat (map new_keys add), h')"
      using False f keys
      by (simp add: createJiraTicket_eq split: fetched.splits option.splits)
    have cr': "\<forall>e\<in>set (new @ add). is_create e"
      using cr ev by auto
    have "set (concat (map submitted add)) \<subseteq> {item_key item}"
      using ev by (auto simp: jiraPayload_reference)
    with sub nt have sub': "\<forall>k. truthy (idx k) \<longrightarrow> k \<notin> set (concat (map submitted (new @ add)))"
      by auto
    show ?thesis
      unfolding creating_def s res
      using h h' c cr' sub'
      by (intro exI[of _ "new @ add"]) simp
  qed
qed

lemma creating_fold:
  "creating idx h2 c0 s \<Longrightarrow>
   creating idx h2 c0 (fold (createJiraTicket cfg env idx cache itemType) items s)"
  by (induction items arbitrary: s) (simp_all add: creating_step)

lemma creating_init: "creating idx h2 [] ([], h2)"
  by (simp add: creating_def)

lemma lookup_user_grows:
  "\<exists>new. snd (lookup_user env email s) = snd s @ new \<and> (\<forall>e\<in>set new. \<not> is_create e)"
proof -
  obtain cache h where s: "s = (cache, h)" by (cases s)
  obtain r h' where f:
    "fetchWithRetry (\<lambda>h. jira_user_search env h email) (JiraUserSearch email) h = (r, h')"
    by (cases "fetchWithRetry (\<lambda>h. jira_user_search env h email) (JiraUserSearch email) h")
  from fetchWithRetry_events[OF f] obtain new where
    n: "h' = h @ new" "\<forall>e\<in>set new. \<exists>x. e = JiraUserSearch email x" by blast
  have "snd (lookup_user env email s) = h \<or> snd (lookup_user env email s) = h'"
    using f s by (simp add: lookup_user_def split: fetched.splits option.splits list.splits)
  then show ?thesis
  proof
    assume "snd (lookup_user env email s) = h"
    with s show ?thesis by (intro exI[of _ "[]"]) simp
  next
    assume "snd (lookup_user env email s) = h'"
    with s n show ?thesis by (intro exI[of _ new]) auto
  qed
qed

lemma lookupJiraUsers_grows:
  "\<exists>new. snd (lookupJiraUsers env prjs s) = snd s @ new \<and> (\<forall>e\<in>set new. \<not> is_create e)"
proof -
  have "\<exists>new. snd (fold (lookup_user env) es s) = snd s @ new \<and> (\<forall>e\<in>set new. \<not> is_create e)" for es
  proof (induction es arbitrary: s)
    case Nil
    show ?case by simp
  next
    case (Cons e es)
    from lookup_user_grows[of env e s] obtain n1 where
      1: "snd (lookup_user env e s) = snd s @ n1" "\<forall>e\<in>set n1. \<not> is_create e" by blast
    from Cons.IH[of "lookup_user env e s"] obtain n2 where
      2: "snd (fold (lookup_user env) es (lookup_user env e s)) = snd (lookup_user env e s) @ n2"
         "\<forall>e\<in>set n2. \<not> is_create e" by blast
    from 1 2 show ?case by (intro exI[of _ "n1 @ n2"]) auto
  qed
  then show ?thesis by (simp add: lookupJiraUsers_def)
qed

lemma index_batch_grows:
  "\<exists>new. snd (index_batch env batch s h) = h @ new \<and> (\<forall>e\<in>set new. \<not> is_create e)"
proof -
  obtain r h' where f:
    "fetchWithRetry (\<lambda>h. jira_search_existing env h batch) (JiraSearchExisting batch) h = (r, h')"
    by (cases "fetchWithRetry (\<lambda>h. jira_search_existing env h batch) (JiraSearchExisting batch) h")
  from fetchWithRetry_events[OF f] obtain new where
    n: "h' = h @ new" "\<forall>e\<in>set new. \<exists>x. e = JiraSearchExisting batch x" by blast
  have "snd (index_batch env batch s h) = h'"
    using f by (simp add: index_batch_def split: fetched.splits option.splits)
  with n show ?thesis by (intro exI[of _ new]) auto
qed

lemma index_batches_grows:
  "\<exists>new. snd (index_batches env bs s h) = h @ new \<and> (\<forall>e\<in>set new. \<not> is_create e)"
proof (induction bs arbitrary: s h)
  case Nil
  show ?case by simp
next
  case (Cons b bs)
  obtain r h1 where step: "index_batch env b s h = (r, h1)" by (cases "index_batch env b s h")
  from index_batch_grows[of env b s h] step obtain n1 where
    1: "h1 = h @ n1" "\<forall>e\<in>set n1. \<not> is_create e" by auto
  show ?case
  proof (cases r)
    case (Inl e)
    with step 1 show ?thesis by (intro exI[of _ n1]) simp
  next
    case (Inr s1)
    from Cons.IH[of s1 h1] obtain n2 where
      2: "snd (index_batches env bs s1 h1) = h1 @ n2" "\<forall>e\<in>set n2. \<not> is_create e" by blast
    with step Inr 1 show ?thesis by (intro exI[of _ "n1 @ n2"]) auto
  qed
qed

lemma build_index_grows:
  "\<exists>new. snd (build_index env allSonarKeys h) = h @ new \<and> (\<forall>e\<in>set new. \<not> is_create e)"
  using index_batches_grows[of env "slices 50 allSonarKeys" "(Map.empty, [])" h]
  by (simp add: build_index_def del: slices.simps)


lemma not_create_silent:
  "\<not> is_create e \<Longrightarrow> submitted e = [] \<and> new_keys e = [] \<and> ticketed e = []"
  by (cases e) simp_all

lemma silent_concat:
  "\<forall>e\<in>set new. \<not> is_create e \<Longrightarrow>
   concat (map submitted new) = [] \<and> concat (map new_keys new) = []"
  by (induction new) (simp_all add: not_create_silent)

lemma index_ticket_listed:
  assumes "\<forall>k t. fst s k = Some t \<longrightarrow> t \<in> set (snd s)"
  shows "\<forall>k t. fst (index_ticket tk s) k = Some t \<longrightarrow> t \<in> set (snd (index_ticket tk s))"
  using assms
  by (cases s) (auto simp: index_ticket_def set_property_def Let_def split: option.splits list.splits if_splits)

lemma fold_index_ticket_listed:
  "\<forall>k t. fst s k = Some t \<longrightarrow> t \<in> set (snd s) \<Longrightarrow>
   \<forall>k t. fst (fold index_ticket tks s) k = Some t \<longrightarrow> t \<in> set (snd (fold index_ticket tks s))"
proof (induction tks arbitrary: s)
  case Nil
  then show ?case by simp
next
  case (Cons tk tks)
  from index_ticket_listed[OF Cons.prems, of tk] Cons.IH[of "index_ticket tk s"]
  show ?case by simp
qed

lemma index_batches_listed:
  "\<forall>k t. fst s k = Some t \<longrightarrow> t \<in> set (snd s) \<Longrightarrow>
   \<forall>k t. fst (fst (index_batches env bs s h)) k = Some t
          \<longrightarrow> t \<in> set (snd (fst (index_batches env bs s h)))"
proof (induction bs arbitrary: s h)
  case Nil
  then show ?case by simp
next
  case (Cons b bs)
  obtain r h1 where step: "index_batch env b s h = (r, h1)" by (cases "index_batch env b s h")
  show ?case
  proof (cases r)
    case (Inl e)
    with step Cons.prems show ?thesis by simp
  next
    case (Inr s1)
    with step obtain tks where "s1 = fold index_ticket tks s"
      by (auto simp: index_batch_def split: prod.splits fetched.splits option.splits if_splits)
    with Cons.prems have "\<forall>k t. fst s1 k = Some t \<longrightarrow> t \<in> set (snd s1)"
      using fold_index_ticket_listed by blast
    from Cons.IH[OF this, of h1] step Inr show ?thesis by simp
  qed
qed

lemma build_index_listed:
  "build_index env allSonarKeys h = ((idx, ex), h') \<Longrightarrow> idx k = Some t \<Longrightarrow> t \<in> set ex"
proof -
  assume b: "build_index env allSonarKeys h = ((idx, ex), h')" and k: "idx k = Some t"
  have init: "\<forall>k t. fst (Map.empty :: ticket_index, [] :: string list) k = Some t
                \<longrightarrow> t \<in> set (snd (Map.empty :: ticket_index, [] :: string list))"
    by simp
  show ?thesis
  proof (cases "allSonarKeys = []")
    case True
    with b k show ?thesis by (auto simp: build_index_def)
  next
    case False
    with b have "index_batches env (slices 50 allSonarKeys) (Map.empty, []) h = ((idx, ex), h')"
      by (simp add: build_index_def del: slices.simps)
    with index_batches_listed[OF init, of env "slices 50 allSonarKeys" h] k
    show ?thesis by (simp del: slices.simps)
  qed
qed

lemma createJiraTickets_unfold:
  assumes "lookupJiraUsers env (projects cfg) s = (cache, h1)"
      and "build_index env (map item_key issues @ map item_key hotspots) h1 = ((idx, ex), h2)"
  shows "createJiraTickets cfg env issues hotspots s =
           (\<lparr>created = fst (fold (createJiraTicket cfg env idx cache ''hotspot'') hotspots
                              (fold (createJiraTicket cfg env idx cache ''issue'') issues ([], h2))),
             existing = ex\<rparr>,
            cache,
            snd (fold (createJiraTicket cfg env idx cache ''hotspot'') hotspots
                   (fold (createJiraTicket cfg env idx cache ''issue'') issues ([], h2))))"
  by (simp add: createJiraTickets_def assms Let_def split: prod.splits)

lemma createJiraTickets_run:
  assumes users: "lookupJiraUsers env (projects cfg) s = (cache, h1)"
      and index: "build_index env (map item_key issues @ map item_key hotspots) h1 = ((idx, ex), h2)"
  shows "\<exists>new. snd (snd (createJiraTickets cfg env issues hotspots s)) = snd s @ new \<and>
               created (fst (createJiraTickets cfg env issues hotspots s))
                 = concat (map new_keys new) \<and>
               (\<forall>k. truthy (idx k) \<longrightarrow> k \<notin> set (concat (map submitted new))) \<and>
               existing (fst (createJiraTickets cfg env issues hotspots s)) = ex"
proof -
  let ?s3 = "fold (createJiraTicket cfg env idx cache ''issue'') issues ([], h2)"
  let ?s4 = "fold (createJiraTicket cfg env idx cache ''hotspot'') hotspots ?s3"
  have run: "createJiraTickets cfg env issues hotspots s =
               (\<lparr>created = fst ?s4, existing = ex\<rparr>, cache, snd ?s4)"
    by (rule createJiraTickets_unfold[OF users index])
  have "creating idx h2 [] ?s3" by (rule creating_fold[OF creating_init])
  then have "creating idx h2 [] ?s4" by (rule creating_fold)
  then obtain n3 where
    n3: "snd ?s4 = h2 @ n3" "fst ?s4 = concat (map new_keys n3)"
        "\<forall>k. truthy (idx k) \<longrightarrow> k \<notin> set (concat (map submitted n3))"
    by (auto simp: creating_def)
  from lookupJiraUsers_grows[of env "projects cfg" s] users obtain n1 where
    n1: "h1 = snd s @ n1" "\<forall>e\<in>set n1. \<not> is_create e" by auto
  from build_index_grows[of env "map item_key issues @ map item_key hotspots" h1] index
  obtain n2 where n2: "h2 = h1 @ n2" "\<forall>e\<in>set n2. \<not> is_create e" by auto
  from n1(2) n2(2) have quiet: "\<forall>e\<in>set (n1 @ n2). \<not> is_create e" by auto
  note q = silent_concat[OF quiet]
  show ?thesis
    unfolding run
    using n1(1) n2(1) n3 q
    by (intro exI[of _ "(n1 @ n2) @ n3"]) simp
qed

text \<open>
  C3. In a run of \<^verbatim>\<open>createJiraTickets\<close>, every ticket key held by the existence index
  is in the \<^verbatim>\<open>existing\<close> list; no create request is sent for an identifier the index
  maps to a ticket; the \<^verbatim>\<open>created\<close> list holds exactly the keys the tracker returned
  for the create requests that were sent; and a second run on the same findings whose
  index maps every identifier ticketed by the first run sends no create request for any
  of them.
\<close>

theorem createJiraTickets_idempotent_on_index:
  assumes users: "lookupJiraUsers env (projects cfg) s = (cache, h1)"
      and index: "build_index env (map item_key issues @ map item_key hotspots) h1 = ((idx, ex), h2)"
      and run: "createJiraTickets cfg env issues hotspots s = (res, cache', h4)"
  shows "(\<forall>k t. idx k = Some t \<longrightarrow> t \<in> set (existing res)) \<and>
         (\<forall>k. truthy (idx k) \<longrightarrow> k \<notin> set (concat (map submitted (drop (length (snd s)) h4)))) \<and>
         created res = concat (map new_keys (drop (length (snd s)) h4)) \<and>
         (\<forall>env2 cache2 g1 idx2 ex2 g2.
            lookupJiraUsers env2 (projects cfg) (cache', h4) = (cache2, g1) \<and>
            build_index env2 (map item_key issues @ map item_key hotspots) g1 = ((idx2, ex2), g2) \<and>
            (\<forall>k\<in>set (concat (map ticketed (drop (length (snd s)) h4))). truthy (idx2 k))
            \<longrightarrow>
            (\<forall>k\<in>set (concat (map ticketed (drop (length (snd s)) h4))).
               k \<notin> set (concat (map submitted
                     (drop (length h4)
                        (snd (snd (createJiraTickets cfg env2 issues hotspots (cache', h4)))))))))"
proof -
  from createJiraTickets_run[OF users index] run obtain new where
    new: "h4 = snd s @ new" "created res = concat (map new_keys new)"
         "\<forall>k. truthy (idx k) \<longrightarrow> k \<notin> set (concat (map submitted new))"
         "existing res = ex"
    by auto
  have first: "\<forall>k t. idx k = Some t \<longrightarrow> t \<in> set (existing res)"
    using build_index_listed[OF index] new(4) by blast
  have second:
    "\<forall>k\<in>set (concat (map ticketed (drop (length (snd s)) h4))).
        k \<notin> set (concat (map submitted
              (drop (length h4)
                 (snd (snd (createJiraTickets cfg env2 issues hotspots (cache', h4)))))))"
    if u2: "lookupJiraUsers env2 (projects cfg) (cache', h4) = (cache2, g1)"
    and i2: "build_index env2 (map item_key issues @ map item_key hotspots) g1 = ((idx2, ex2), g2)"
    and reflects: "\<forall>k\<in>set (concat (map ticketed (drop (length (snd s)) h4))). truthy (idx2 k)"
    for env2 cache2 g1 idx2 ex2 g2
  proof -
    from createJiraTickets_run[OF u2 i2] obtain new2 where
      "snd (snd (createJiraTickets cfg env2 issues hotspots (cache', h4))) = h4 @ new2"
      "\<forall>k. truthy (idx2 k) \<longrightarrow> k \<notin> set (concat (map submitted new2))"
      by auto
    with reflects show ?thesis by simp
  qed
  from first new second show ?thesis by simp blast
qed


lemma first_run_users:
  "lookupJiraUsers fresh_tracker (projects shop_config) (Map.empty, []) =
     ([''dev@example.com'' \<mapsto> ''acc-1''],
      [JiraUserSearch ''dev@example.com'' (Http 200 (Some [''acc-1'']))])"
  by (simp add: lookupJiraUsers_def shop_emails lookup_user_def truthy_def fetchWithRetry_unfold
        fresh_tracker_def offline_def ok_def)

lemma first_run_index:
  "build_index fresh_tracker (map item_key [critical_issue] @ map item_key [])
     [JiraUserSearch ''dev@example.com'' (Http 200 (Some [''acc-1'']))] =
     ((Map.empty, []),
      [JiraUserSearch ''dev@example.com'' (Http 200 (Some [''acc-1''])),
       JiraSearchExisting [''k1''] (Http 200 (Some []))])"
  by (simp add: build_index_def slices_short index_batch_def fetchWithRetry_unfold
        fresh_tracker_def offline_def ok_def critical_issue_def del: slices.simps)

lemma first_run:
  "createJiraTickets shop_config fresh_tracker [critical_issue] [] (Map.empty, []) =
     (\<lparr>created = [''LV-1''], existing = []\<rparr>,
      [''dev@example.com'' \<mapsto> ''acc-1''],
      [JiraUserSearch ''dev@example.com'' (Http 200 (Some [''acc-1''])),
       JiraSearchExisting [''k1''] (Http 200 (Some [])),
       JiraCreateIssue
         (jiraPayload shop_config [''dev@example.com'' \<mapsto> ''acc-1''] critical_issue ''issue'')
         (Http 201 (Some ''LV-1''))])"
  by (subst createJiraTickets_unfold[OF first_run_users first_run_index])
     (simp add: createJiraTicket_eq get_property_def object_prototype_names_def
        property_truthy_def truthy_def fetchWithRetry_unfold fresh_tracker_def offline_def ok_def
        critical_issue_def)

lemma second_run_users:
  "lookupJiraUsers ticketed_tracker (projects shop_config)
     ([''dev@example.com'' \<mapsto> ''acc-1''], h) = ([''dev@example.com'' \<mapsto> ''acc-1''], h)"
  by (simp add: lookupJiraUsers_def shop_emails lookup_user_def truthy_def)

lemma second_run_index:
  "build_index ticketed_tracker (map item_key [critical_issue] @ map item_key []) h =
     (([''k1'' \<mapsto> ''LV-1''], [''LV-1'']),
      h @ [JiraSearchExisting [''k1'']
             (Http 200 (Some [\<lparr>ticket_key = ''LV-1'', customfield_11972 = Some [[Some ''k1'']],
                              status_name = Some ''Open''\<rparr>]))])"
  by (simp add: build_index_def slices_short index_batch_def fetchWithRetry_unfold index_ticket_def set_property_def
        ticketed_tracker_def fresh_tracker_def offline_def ok_def critical_issue_def
      del: slices.simps)

lemma second_run:
  "createJiraTickets shop_config ticketed_tracker [critical_issue] []
     ([''dev@example.com'' \<mapsto> ''acc-1''], h) =
     (\<lparr>created = [], existing = [''LV-1'']\<rparr>,
      [''dev@example.com'' \<mapsto> ''acc-1''],
      h @ [JiraSearchExisting [''k1'']
             (Http 200 (Some [\<lparr>ticket_key = ''LV-1'', customfield_11972 = Some [[Some ''k1'']],
                              status_name = Some ''Open''\<rparr>]))])"
  by (subst createJiraTickets_unfold[OF second_run_users second_run_index])
     (simp add: createJiraTicket_eq get_property_def object_prototype_names_def property_truthy_def truthy_def critical_issue_def)

theorem createJiraTickets_idempotent_on_index_witness:
  "createJiraTickets shop_config fresh_tracker [critical_issue] [] (Map.empty, []) =
     (\<lparr>created = [''LV-1''], existing = []\<rparr>,
      [''dev@example.com'' \<mapsto> ''acc-1''],
      [JiraUserSearch ''dev@example.com'' (Http 200 (Some [''acc-1''])),
       JiraSearchExisting [''k1''] (Http 200 (Some [])),
       JiraCreateIssue
         (jiraPayload shop_config [''dev@example.com'' \<mapsto> ''acc-1''] critical_issue ''issue'')
         (Http 201 (Some ''LV-1''))]) \<and>
   concat (map ticketed
     [JiraUserSearch ''dev@example.com'' (Http 200 (Some [''acc-1''])),
      JiraSearchExisting [''k1''] (Http 200 (Some [])),
      JiraCreateIssue
        (jiraPayload shop_config [''dev@example.com'' \<mapsto> ''acc-1''] critical_issue ''issue'')
        (Http 201 (Some ''LV-1''))]) = [''k1''] \<and>
   truthy ([''k1'' \<mapsto> ''LV-1''] ''k1'') \<and>
   ''LV-1'' \<in> set (existing (fst (createJiraTickets shop_config ticketed_tracker [critical_issue] []
        ([''dev@example.com'' \<mapsto> ''acc-1''],
         [JiraUserSearch ''dev@example.com'' (Http 200 (Some [''acc-1''])),
          JiraSearchExisting [''k1''] (Http 200 (Some [])),
          JiraCreateIssue
            (jiraPayload shop_config [''dev@example.com'' \<mapsto> ''acc-1''] critical_issue ''issue'')
            (Http 201 (Some ''LV-1''))])))) \<and>
   ''k1'' \<notin> set (concat (map submitted (drop 3
      (snd (snd (createJiraTickets shop_config ticketed_tracker [critical_issue] []
        ([''dev@example.com'' \<mapsto> ''acc-1''],
         [JiraUserSearch ''dev@example.com'' (Http 200 (Some [''acc-1''])),
          JiraSearchExisting [''k1''] (Http 200 (Some [])),
          JiraCreateIssue
            (jiraPayload shop_config [''dev@example.com'' \<mapsto> ''acc-1''] critical_issue ''issue'')
            (Http 201 (Some ''LV-1''))])))))))"
proof -
  let ?c = "[''dev@example.com'' \<mapsto> ''acc-1'']"
  let ?H = "[JiraUserSearch ''dev@example.com'' (Http 200 (Some [''acc-1''])),
             JiraSearchExisting [''k1''] (Http 200 (Some [])),
             JiraCreateIssue (jiraPayload shop_config ?c critical_issue ''issue'')
               (Http 201 (Some ''LV-1''))]"
  have t: "concat (map ticketed ?H) = [''k1'']"
    by (simp add: ok_def jiraPayload_reference critical_issue_def)
  have tr: "truthy ([''k1'' \<mapsto> ''LV-1''] ''k1'')" by (simp add: truthy_def)
  note A = createJiraTickets_idempotent_on_index[OF first_run_users first_run_index first_run]
  note B = createJiraTickets_idempotent_on_index[OF second_run_users second_run_index second_run, of ?H]
  let ?G = "?H @ [JiraSearchExisting [''k1'']
             (Http 200 (Some [\<lparr>ticket_key = ''LV-1'', customfield_11972 = Some [[Some ''k1'']],
                              status_name = Some ''Open''\<rparr>]))]"
  note Q = A[THEN conjunct2, THEN conjunct2, THEN conjunct2, rule_format,
             of ticketed_tracker ?c ?H "[''k1'' \<mapsto> ''LV-1'']" "[''LV-1'']" ?G "''k1''"]
  have prem:
    "lookupJiraUsers ticketed_tracker (projects shop_config) (?c, ?H) = (?c, ?H) \<and>
     build_index ticketed_tracker (map item_key [critical_issue] @ map item_key []) ?H =
       (([''k1'' \<mapsto> ''LV-1''], [''LV-1'']), ?G) \<and>
     (\<forall>k\<in>set (concat (map ticketed
              (drop (length (snd (Map.empty :: account_cache, [] :: event list))) ?H))).
         truthy ([''k1'' \<mapsto> ''LV-1''] k))"
  proof (intro conjI)
    show "lookupJiraUsers ticketed_tracker (projects shop_config) (?c, ?H) = (?c, ?H)"
      by (rule second_run_users)
    show "build_index ticketed_tracker (map item_key [critical_issue] @ map item_key []) ?H =
            (([''k1'' \<mapsto> ''LV-1''], [''LV-1'']), ?G)"
      by (rule second_run_index)
    show "\<forall>k\<in>set (concat (map ticketed
              (drop (length (snd (Map.empty :: account_cache, [] :: event list))) ?H))).
            truthy ([''k1'' \<mapsto> ''LV-1''] k)"
      by (simp add: ok_def jiraPayload_reference critical_issue_def truthy_def)
  qed
  have mem: "''k1'' \<in> set (concat (map ticketed
              (drop (length (snd (Map.empty :: account_cache, [] :: event list))) ?H)))"
    by (simp add: ok_def jiraPayload_reference critical_issue_def)
  from Q[OF prem mem]
  have "''k1'' \<notin> set (concat (map submitted
              (drop (length ?H)
                 (snd (snd (createJiraTickets shop_config ticketed_tracker [critical_issue] []
                    (?c, ?H)))))))" .
  then have "''k1'' \<notin> set (concat (map submitted
              (drop 3
                 (snd (snd (createJiraTickets shop_config ticketed_tracker [critical_issue] []
                    (?c, ?H)))))))"
    by (simp add: numeral_3_eq_3)
  moreover from B have "''LV-1'' \<in> set (existing (fst (createJiraTickets shop_config
      ticketed_tracker [critical_issue] [] (?c, ?H))))"
    by (simp add: second_run)
  ultimately show ?thesis using first_run t tr by blast
qed

end
